theory Spec2Isabelle
  imports Main "HOL-Library.Word"
begin

section \<open>Data model of the sentry node (pkg/ethereum/node_notifiee.go)\<close>

text \<open>
  A peer identity and a multiaddress are opaque to the handshake code; both are kept as
  strings. Byte slices are lists of 8-bit words, slots and epochs are unsigned 64-bit
  words, so that the comparison \<open><\<close> is Go's unsigned comparison.
\<close>

type_synonym peer_id = string
type_synonym multiaddr = string
type_synonym byte = "8 word"

text \<open>\<^verbatim>\<open>peer.AddrInfo{ID: pid, Addrs: addrs[:1]}\<close>\<close>

record AddrInfo =
  ai_ID :: peer_id
  ai_Addrs :: "multiaddr list"

text \<open>
  The Status message of the consensus protocol, as \<^verbatim>\<open>validatePeer\<close> reads it:
  \<^verbatim>\<open>st.ForkDigest\<close> is a byte slice, \<^verbatim>\<open>st.HeadSlot\<close> an unsigned 64-bit slot.
\<close>

record Status =
  ForkDigest :: "byte list"
  FinalizedRoot :: "byte list"
  FinalizedEpoch :: "64 word"
  HeadRoot :: "byte list"
  HeadSlot :: "64 word"

record MetaDataV1 =
  SeqNumber :: "64 word"
  Attnets :: "byte list"
  Syncnets :: "byte list"

text \<open>
  Errors are values. \<^verbatim>\<open>errors.Wrap(err, msg)\<close> keeps the cause and adds one message.
\<close>

datatype error = Err string | Wrap error string

datatype Connectedness = NotConnected | Connected

datatype level = Debug | Info | Warn | Error | Fatal

text \<open>
  Everything a flow does to the outside is recorded, in order, in a trace: the four RPCs,
  the forced close, the replacement of the local status record, the event handed to the
  emitter, the two cache insertions, the structured log lines and the line of the file log.
\<close>

datatype action =
    RpcStatus peer_id
  | RpcPing peer_id
  | RpcMetaData peer_id
  | RpcGoodbye peer_id "64 word"
  | Close peer_id
  | StatusSet Status
  | Emit peer_id AddrInfo MetaDataV1
  | CachePut peer_id MetaDataV1
  | BackoffPut peer_id AddrInfo
  | Log level string
  | FileLog peer_id MetaDataV1
  | Sleep nat

text \<open>
  The node: \<^verbatim>\<open>n.cfg.ForkDigest\<close> is a \<^verbatim>\<open>[4]byte\<close> array, \<^verbatim>\<open>n.reqResp.status\<close> the one
  local status record, the two caches map a peer to its entry and the time of the
  insertion, \<^verbatim>\<open>n.host.Peerstore()\<close> is the address book and \<^verbatim>\<open>n.host.Network()\<close> the state
  of the connections.
\<close>

record Node =
  cfg_ForkDigest :: "byte \<times> byte \<times> byte \<times> byte"
  status :: Status
  metadataCache :: "peer_id \<rightharpoonup> (MetaDataV1 \<times> int)"
  backoffCache :: "peer_id \<rightharpoonup> (AddrInfo \<times> int)"
  peerstore :: "peer_id \<Rightarrow> multiaddr list"
  network :: "peer_id \<Rightarrow> Connectedness"
  trace :: "action list"

text \<open>
  What the remote peer and the clock answer during one flow. Each RPC is issued at most
  once per flow, so one answer per RPC is enough; a timeout of the context is one of the
  errors an RPC can return. The remote side may close the connection on its own while
  the inbound flow sleeps, or later, before the deferred cleanup looks at it.
\<close>

record env =
  status_resp :: "error + Status"
  ping_resp :: "error option"
  metadata_resp :: "error + MetaDataV1"
  goodbye_resp :: "error option"
  closed_during_grace :: bool
  closed_before_cleanup :: bool
  now :: int

text \<open>
  A flow either returns to the goroutine that runs it, with the node as it left it, or it
  ends the process.
\<close>

datatype outcome = Returned Node | ProcessFatal

section \<open>The collaborators of the flows\<close>

definition act :: "action \<Rightarrow> Node \<Rightarrow> Node" where
  "act a n = n\<lparr>trace := trace n @ [a]\<rparr>"

definition logmsg :: "level \<Rightarrow> string \<Rightarrow> Node \<Rightarrow> Node" where
  "logmsg l m n = act (Log l m) n"

text \<open>\<^verbatim>\<open>n.cfg.ForkDigest[:]\<close>: the array as a slice.\<close>

fun slice4 :: "byte \<times> byte \<times> byte \<times> byte \<Rightarrow> byte list" where
  "slice4 (a, b, c, d) = [a, b, c, d]"

text \<open>\<^verbatim>\<open>bytes.Equal\<close>: same length and same bytes.\<close>

definition bytes_Equal :: "byte list \<Rightarrow> byte list \<Rightarrow> bool" where
  "bytes_Equal a b = (a = b)"

text \<open>
  The four RPCs of the protocol client are calls to the remote peer: each records the call
  and returns the answer of the environment.
\<close>

definition Status_rpc :: "env \<Rightarrow> peer_id \<Rightarrow> Node \<Rightarrow> (error + Status) \<times> Node" where
  "Status_rpc e pid n = (status_resp e, act (RpcStatus pid) n)"

definition Ping :: "env \<Rightarrow> peer_id \<Rightarrow> Node \<Rightarrow> error option \<times> Node" where
  "Ping e pid n = (ping_resp e, act (RpcPing pid) n)"

definition MetaData :: "env \<Rightarrow> peer_id \<Rightarrow> Node \<Rightarrow> (error + MetaDataV1) \<times> Node" where
  "MetaData e pid n = (metadata_resp e, act (RpcMetaData pid) n)"

definition Goodbye :: "env \<Rightarrow> peer_id \<Rightarrow> 64 word \<Rightarrow> Node \<Rightarrow> error option \<times> Node" where
  "Goodbye e pid code n = (goodbye_resp e, act (RpcGoodbye pid code) n)"

text \<open>
  Modelled from the spec: \<^verbatim>\<open>SetStatus\<close> of the protocol client is not among the sources.
  The update of the local StatusRecord is made at the level of the record, never field by
  field (section 5: no torn record): the record handed over becomes the local one.
\<close>

definition SetStatus :: "Status \<Rightarrow> Node \<Rightarrow> Node" where
  "SetStatus st n = act (StatusSet st) (n\<lparr>status := st\<rparr>)"

text \<open>
  Modelled from the spec: \<^verbatim>\<open>sendMetadataEvent\<close> is not among the sources. The event
  emitter hands the fact (peer, address, metadata) to the publish capability; a failure
  to publish does not abort the flow.
\<close>

definition sendMetadataEvent :: "peer_id \<Rightarrow> AddrInfo \<Rightarrow> MetaDataV1 \<Rightarrow> Node \<Rightarrow> Node" where
  "sendMetadataEvent pid addrInfo md n = act (Emit pid addrInfo md) n"

text \<open>
  Modelled from the spec: \<^verbatim>\<open>addToMetadataCache\<close> is not among the sources. The put of
  section 4.3 always overwrites, and the entry carries the time of the fetch.
\<close>

definition addToMetadataCache :: "env \<Rightarrow> peer_id \<Rightarrow> MetaDataV1 \<Rightarrow> Node \<Rightarrow> Node" where
  "addToMetadataCache e pid md n =
     act (CachePut pid md) (n\<lparr>metadataCache := (metadataCache n)(pid \<mapsto> (md, now e))\<rparr>)"

text \<open>
  Modelled from the spec: \<^verbatim>\<open>addToBackoffCache\<close> is not among the sources. The put of
  section 4.4 overwrites and refreshes the time of the failure.
\<close>

definition addToBackoffCache :: "env \<Rightarrow> peer_id \<Rightarrow> AddrInfo \<Rightarrow> Node \<Rightarrow> Node" where
  "addToBackoffCache e pid addrInfo n =
     act (BackoffPut pid addrInfo) (n\<lparr>backoffCache := (backoffCache n)(pid \<mapsto> (addrInfo, now e))\<rparr>)"

text \<open>\<^verbatim>\<open>n.host.Network().ClosePeer(pid)\<close>: the forced close.\<close>

definition ClosePeer :: "peer_id \<Rightarrow> Node \<Rightarrow> Node" where
  "ClosePeer pid n = act (Close pid) (n\<lparr>network := (network n)(pid := NotConnected)\<rparr>)"

text \<open>The remote side closing the connection on its own.\<close>

definition remote_close :: "bool \<Rightarrow> peer_id \<Rightarrow> Node \<Rightarrow> Node" where
  "remote_close b pid n = (if b then n\<lparr>network := (network n)(pid := NotConnected)\<rparr> else n)"

text \<open>
  The line of the file log and the info line that close a successful handshake.
\<close>

definition handshake_done :: "peer_id \<Rightarrow> MetaDataV1 \<Rightarrow> Node \<Rightarrow> Node" where
  "handshake_done pid md n =
     act (FileLog pid md) (logmsg Info ''Performed successful handshake'' n)"

section \<open>validatePeer\<close>

text \<open>
  \<^verbatim>\<open>
  st, err := n.reqResp.Status(ctx, pid)
  if err != nil { return errors.Wrap(err, "Failed to get status from peer") }
  if bytes.Equal(st.ForkDigest, n.cfg.ForkDigest[:]) {
      if st.HeadSlot > n.reqResp.status.HeadSlot { n.reqResp.SetStatus(st) }
  }
  if err := n.reqResp.Ping(ctx, pid); err != nil { return errors.Wrap(err, "Failed to ping peer") }
  md, err := n.reqResp.MetaData(ctx, pid)
  if err != nil { return errors.Wrap(err, "Failed to get metadata from peer") }
  n.sendMetadataEvent(ctx, pid, addrInfo, md)
  n.addToMetadataCache(pid, md)
  ... log lines ...
  return nil
  \<close>
\<close>

definition validatePeer :: "env \<Rightarrow> peer_id \<Rightarrow> AddrInfo \<Rightarrow> Node \<Rightarrow> error option \<times> Node" where
  "validatePeer e pid addrInfo n =
     (case Status_rpc e pid n of
        (Inl err, n1) \<Rightarrow> (Some (Wrap err ''Failed to get status from peer''), n1)
      | (Inr st, n1) \<Rightarrow>
          let n2 = (if bytes_Equal (ForkDigest st) (slice4 (cfg_ForkDigest n1))
                    then (if HeadSlot (status n1) < HeadSlot st then SetStatus st n1 else n1)
                    else n1)
          in (case Ping e pid n2 of
                (Some err, n3) \<Rightarrow> (Some (Wrap err ''Failed to ping peer''), n3)
              | (None, n3) \<Rightarrow>
                  (case MetaData e pid n3 of
                     (Inl err, n4) \<Rightarrow> (Some (Wrap err ''Failed to get metadata from peer''), n4)
                   | (Inr md, n4) \<Rightarrow>
                       (None, handshake_done pid md
                                (addToMetadataCache e pid md
                                  (sendMetadataEvent pid addrInfo md n4))))))"

text \<open>A sequence of Status exchanges: one run of validatePeer after the other.\<close>

fun validateAll :: "(env \<times> peer_id \<times> AddrInfo) list \<Rightarrow> Node \<Rightarrow> Node" where
  "validateAll [] n = n"
| "validateAll ((e, pid, addrInfo) # rs) n = validateAll rs (snd (validatePeer e pid addrInfo n))"

section \<open>The deferred cleanup and the two flows\<close>

text \<open>
  \<^verbatim>\<open>
  defer func() {
      if n.host.Network().Connectedness(pid) != network.Connected { return }
      err := n.reqResp.Goodbye(ctx, pid, 3)
      if err != nil { n.log.Debug()...Msg("Failed to send goodbye message") }
      n.host.Network().ClosePeer(pid)
  }()
  \<close>
  The same deferred function stands in both flows; it runs at every return.
\<close>

definition cleanup :: "env \<Rightarrow> peer_id \<Rightarrow> Node \<Rightarrow> Node" where
  "cleanup e pid n =
     (let n0 = remote_close (closed_before_cleanup e) pid n in
      if network n0 pid \<noteq> Connected then n0
      else (case Goodbye e pid 3 n0 of
              (Some err, n1) \<Rightarrow> ClosePeer pid (logmsg Debug ''Failed to send goodbye message'' n1)
            | (None, n1) \<Rightarrow> ClosePeer pid n1))"

text \<open>
  \<^verbatim>\<open>
  addrs := n.host.Peerstore().Addrs(pid)
  if len(addrs) == 0 { n.log.Error()...Msg("No addresses found for peer"); return }
  addrInfo := peer.AddrInfo{ID: pid, Addrs: addrs[:1]}
  if err := n.validatePeer(ctx, pid, addrInfo); err != nil {
      n.log.Warn()...Msg("Handshake failed")
      n.addToBackoffCache(pid, addrInfo)
      return
  }
  \<close>
\<close>

definition handleOutboundConnection :: "env \<Rightarrow> peer_id \<Rightarrow> Node \<Rightarrow> outcome" where
  "handleOutboundConnection e pid n =
     (let addrs = peerstore n pid in
      if length addrs = 0
      then Returned (cleanup e pid (logmsg Error ''No addresses found for peer'' n))
      else
        let addrInfo = \<lparr>ai_ID = pid, ai_Addrs = take 1 addrs\<rparr> in
        (case validatePeer e pid addrInfo n of
           (Some err, n1) \<Rightarrow>
             Returned (cleanup e pid
               (addToBackoffCache e pid addrInfo (logmsg Warn ''Handshake failed'' n1)))
         | (None, n1) \<Rightarrow> Returned (cleanup e pid n1)))"

text \<open>
  \<^verbatim>\<open>
  time.Sleep(5 * time.Second)
  if n.host.Network().Connectedness(pid) != network.Connected { n.log.Warn()...; return }
  md, err := n.reqResp.MetaData(ctx, pid)
  if err != nil { n.log.Warn()...Msg("Failed requesting metadata"); return }
  addrs := n.host.Peerstore().Addrs(pid)
  if len(addrs) == 0 { n.log.Fatal().Str("No addresses found for peer", pid.String()) }
  addrInfo := peer.AddrInfo{ID: pid, Addrs: addrs[:1]}
  n.sendMetadataEvent(ctx, pid, addrInfo, md)
  n.addToMetadataCache(pid, md)
  ... log lines ...
  \<close>
  With an empty address list the flow takes the branch of the fatal log event (and the
  slice expression \<^verbatim>\<open>addrs[:1]\<close> after it is out of range for a nil slice): the
  flow does not return to its goroutine, the process ends. Nothing is said about the node
  after that.
\<close>

definition handleInboundConnection :: "env \<Rightarrow> peer_id \<Rightarrow> Node \<Rightarrow> outcome" where
  "handleInboundConnection e pid n =
     (let n0 = logmsg Info ''Handling new inbound connection'' n;
          n1 = remote_close (closed_during_grace e) pid (act (Sleep 5) n0)
      in if network n1 pid \<noteq> Connected
         then Returned (cleanup e pid
                (logmsg Warn ''Connection was closed before handshake completed'' n1))
         else (case MetaData e pid n1 of
                 (Inl err, n2) \<Rightarrow>
                   Returned (cleanup e pid (logmsg Warn ''Failed requesting metadata'' n2))
               | (Inr md, n2) \<Rightarrow>
                   let addrs = peerstore n2 pid in
                   if length addrs = 0 then ProcessFatal
                   else
                     let addrInfo = \<lparr>ai_ID = pid, ai_Addrs = take 1 addrs\<rparr> in
                     Returned (cleanup e pid
                       (handshake_done pid md
                         (addToMetadataCache e pid md
                           (sendMetadataEvent pid addrInfo md n2))))))"

section \<open>The downstream consumer (consumer/main.go)\<close>

text \<open>
  Modelled from the spec: the declarations of the two event types of package ethereum are
  not among the sources. Each event carries the identity and address fields of its kind,
  the crawler identity and location and the capture timestamp (section 3 and section 6);
  the metadata event also carries the metadata payload, a pointer that may be nil. Port
  and epoch are read as Go's \<^verbatim>\<open>int\<close>, a 64-bit word.
\<close>

record PeerDiscoveredEvent =
  pd_ENR :: string
  pd_ID :: string
  pd_IP :: string
  pd_Port :: "64 word"
  pd_CrawlerID :: string
  pd_CrawlerLoc :: string
  pd_Timestamp :: "64 word"

record MetadataReceivedEvent =
  mr_ID :: string
  mr_Multiaddr :: string
  mr_Epoch :: "64 word"
  mr_MetaData :: "MetaDataV1 option"
  mr_ClientVersion :: string
  mr_CrawlerID :: string
  mr_CrawlerLoc :: string
  mr_Timestamp :: "64 word"

text \<open>The two row types of the columnar files, as declared in consumer/main.go.\<close>

record ParquetPeerDiscoveredEvent =
  ppd_ENR :: string
  ppd_ID :: string
  ppd_IP :: string
  ppd_Port :: "64 word"
  ppd_CrawlerID :: string
  ppd_CrawlerLoc :: string
  ppd_Timestamp :: "64 word"

record ParquetMetadataReceivedEvent =
  pmr_ID :: string
  pmr_Multiaddr :: string
  pmr_Epoch :: "64 word"
  pmr_MetaData :: "MetaDataV1 option"
  pmr_ClientVersion :: string
  pmr_CrawlerID :: string
  pmr_CrawlerLoc :: string
  pmr_Timestamp :: "64 word"

text \<open>
  What the consumer does with one message, in order: lines printed, the info line of the
  logger, the attempt to write a row, and the disposition of the message (terminate or
  acknowledge).
\<close>

datatype cact =
    Printf string
  | LogEvent string
  | WritePeer ParquetPeerDiscoveredEvent
  | WriteMeta ParquetMetadataReceivedEvent
  | MsgTerm
  | MsgAck

text \<open>
  The consumer holds the two writers; a writer is the list of the rows written so far.
\<close>

record Consumer =
  peerDiscoveredWriter :: "ParquetPeerDiscoveredEvent list"
  metadataReceivedWriter :: "ParquetMetadataReceivedEvent list"
  ctrace :: "cact list"

record Msg =
  Subject :: string
  Data :: "byte list"

text \<open>
  The library calls are parameters: \<^verbatim>\<open>json.Unmarshal\<close> for each of the two event
  types, the result of \<^verbatim>\<open>pw.Write\<close> and the result of \<^verbatim>\<open>msg.Ack\<close>. The metadata of
  the message (its sequence number, used in the log line only) is taken as present, as it
  is for a message delivered through a JetStream consumer.
\<close>

record cenv =
  unmarshalPeer :: "byte list \<Rightarrow> error + PeerDiscoveredEvent"
  unmarshalMeta :: "byte list \<Rightarrow> error + MetadataReceivedEvent"
  write_resp :: "error option"
  ack_resp :: "error option"

definition cdo :: "cact \<Rightarrow> Consumer \<Rightarrow> Consumer" where
  "cdo a c = c\<lparr>ctrace := ctrace c @ [a]\<rparr>"

text \<open>
  \<^verbatim>\<open>
  parquetEvent := ParquetPeerDiscoveredEvent{
      ENR: event.ENR, ID: event.ID, IP: event.IP, Port: int(event.Port),
      CrawlerID: event.CrawlerID, CrawlerLoc: event.CrawlerLoc,
  }
  if err := pw.Write(parquetEvent); err != nil { fmt.Printf("Error writing to Parquet file: ...") }
  \<close>
  The literal does not set \<^verbatim>\<open>Timestamp\<close>: the field has Go's zero value.
\<close>

definition mkParquetPeerDiscoveredEvent :: "PeerDiscoveredEvent \<Rightarrow> ParquetPeerDiscoveredEvent" where
  "mkParquetPeerDiscoveredEvent event =
     \<lparr>ppd_ENR = pd_ENR event, ppd_ID = pd_ID event, ppd_IP = pd_IP event,
      ppd_Port = pd_Port event, ppd_CrawlerID = pd_CrawlerID event,
      ppd_CrawlerLoc = pd_CrawlerLoc event, ppd_Timestamp = 0\<rparr>"

definition storePeerDiscoveredEvent :: "cenv \<Rightarrow> PeerDiscoveredEvent \<Rightarrow> Consumer \<Rightarrow> Consumer" where
  "storePeerDiscoveredEvent ce event c =
     (let parquetEvent = mkParquetPeerDiscoveredEvent event;
          c1 = cdo (WritePeer parquetEvent) c
      in (case write_resp ce of
            Some err \<Rightarrow> cdo (Printf ''Error writing to Parquet file'') c1
          | None \<Rightarrow> c1\<lparr>peerDiscoveredWriter := peerDiscoveredWriter c1 @ [parquetEvent]\<rparr>))"

text \<open>
  \<^verbatim>\<open>
  parquetEvent := ParquetMetadataReceivedEvent{
      ID: event.ID, Multiaddr: event.Multiaddr, Epoch: uint(event.Epoch),
      ClientVersion: event.ClientVersion, CrawlerID: event.CrawlerID,
      CrawlerLoc: event.CrawlerLoc,
  }
  \<close>
  The literal sets neither \<^verbatim>\<open>MetaData\<close> nor \<^verbatim>\<open>Timestamp\<close>: a nil pointer and zero.
\<close>

definition mkParquetMetadataReceivedEvent :: "MetadataReceivedEvent \<Rightarrow> ParquetMetadataReceivedEvent" where
  "mkParquetMetadataReceivedEvent event =
     \<lparr>pmr_ID = mr_ID event, pmr_Multiaddr = mr_Multiaddr event, pmr_Epoch = mr_Epoch event,
      pmr_MetaData = None, pmr_ClientVersion = mr_ClientVersion event,
      pmr_CrawlerID = mr_CrawlerID event, pmr_CrawlerLoc = mr_CrawlerLoc event,
      pmr_Timestamp = 0\<rparr>"

definition storeMetadataReceivedEvent :: "cenv \<Rightarrow> MetadataReceivedEvent \<Rightarrow> Consumer \<Rightarrow> Consumer" where
  "storeMetadataReceivedEvent ce event c =
     (let parquetEvent = mkParquetMetadataReceivedEvent event;
          c1 = cdo (WriteMeta parquetEvent) c
      in (case write_resp ce of
            Some err \<Rightarrow> cdo (Printf ''Error writing to Parquet file'') c1
          | None \<Rightarrow> c1\<lparr>metadataReceivedWriter := metadataReceivedWriter c1 @ [parquetEvent]\<rparr>))"

text \<open>
  \<^verbatim>\<open>
  if err := msg.Ack(); err != nil { fmt.Printf("Error acknowledging message: ...") }
  \<close>
\<close>

definition ack :: "cenv \<Rightarrow> Consumer \<Rightarrow> Consumer" where
  "ack ce c =
     (let c1 = cdo MsgAck c in
      case ack_resp ce of
        Some err \<Rightarrow> cdo (Printf ''Error acknowledging message'') c1
      | None \<Rightarrow> c1)"

text \<open>
  \<^verbatim>\<open>
  switch msg.Subject() {
  case "events.peer_discovered":
      if err := json.Unmarshal(msg.Data(), &event); err != nil { Printf; msg.Term(); return }
      cons.log.Info()...Msg("peer_discovered")
      storePeerDiscoveredEvent(cons.peerDiscoveredWriter, event)
  case "events.metadata_received":
      if err := json.Unmarshal(msg.Data(), &event); err != nil { Printf; msg.Term(); return }
      cons.log.Info()...Msg("metadata_received")
      storeMetadataReceivedEvent(cons.metadataReceivedWriter, event)
  default:
      fmt.Printf("Unknown event type: %s\n", msg.Subject())
  }
  if err := msg.Ack(); err != nil { ... }
  \<close>
\<close>

definition handleMessage :: "cenv \<Rightarrow> Msg \<Rightarrow> Consumer \<Rightarrow> Consumer" where
  "handleMessage ce msg c =
     (if Subject msg = ''events.peer_discovered'' then
        (case unmarshalPeer ce (Data msg) of
           Inl err \<Rightarrow> cdo MsgTerm (cdo (Printf ''Error unmarshaling PeerDiscoveredEvent'') c)
         | Inr event \<Rightarrow>
             ack ce (storePeerDiscoveredEvent ce event (cdo (LogEvent ''peer_discovered'') c)))
      else if Subject msg = ''events.metadata_received'' then
        (case unmarshalMeta ce (Data msg) of
           Inl err \<Rightarrow> cdo MsgTerm (cdo (Printf ''Error unmarshaling MetadataReceivedEvent'') c)
         | Inr event \<Rightarrow>
             ack ce (storeMetadataReceivedEvent ce event (cdo (LogEvent ''metadata_received'') c)))
      else ack ce (cdo (Printf ''Unknown event type'') c))"

section \<open>Reading a trace\<close>

text \<open>The actions a run added to the trace it started from.\<close>

definition run_actions :: "Node \<Rightarrow> Node \<Rightarrow> action list" where
  "run_actions n n' = drop (length (trace n)) (trace n')"

fun is_rpc :: "action \<Rightarrow> bool" where
  "is_rpc (RpcStatus p) = True"
| "is_rpc (RpcPing p) = True"
| "is_rpc (RpcMetaData p) = True"
| "is_rpc (RpcGoodbye p c) = True"
| "is_rpc a = False"

fun is_handshake_rpc :: "action \<Rightarrow> bool" where
  "is_handshake_rpc (RpcStatus p) = True"
| "is_handshake_rpc (RpcPing p) = True"
| "is_handshake_rpc (RpcMetaData p) = True"
| "is_handshake_rpc a = False"

fun is_teardown :: "action \<Rightarrow> bool" where
  "is_teardown (RpcGoodbye p c) = True"
| "is_teardown (Close p) = True"
| "is_teardown a = False"

fun is_emit_or_put :: "action \<Rightarrow> bool" where
  "is_emit_or_put (Emit p a m) = True"
| "is_emit_or_put (CachePut p m) = True"
| "is_emit_or_put a = False"

fun is_status_set :: "action \<Rightarrow> bool" where
  "is_status_set (StatusSet st) = True"
| "is_status_set a = False"

fun is_cache_write :: "action \<Rightarrow> bool" where
  "is_cache_write (CachePut p m) = True"
| "is_cache_write (BackoffPut p a) = True"
| "is_cache_write a = False"

text \<open>
  The order the specification asks of emission and insertion, read on a trace: an event
  is emitted only when a cache insertion has already been made. The flag says whether an
  insertion has been seen.
\<close>

fun insert_before_emit :: "bool \<Rightarrow> action list \<Rightarrow> bool" where
  "insert_before_emit seen [] = True"
| "insert_before_emit seen (CachePut p m # as) = insert_before_emit True as"
| "insert_before_emit seen (Emit p a m # as) = (seen \<and> insert_before_emit seen as)"
| "insert_before_emit seen (x # as) = insert_before_emit seen as"

text \<open>
  The compare-and-update step and the cleanup in the words of the specification: the
  record is replaced when the fork digests are equal and the peer's head slot is strictly
  greater; a connection that is still open gets a Goodbye (a failure is logged at debug
  level) and is then closed, a closed one gets nothing.
\<close>

definition rule_fires :: "Node \<Rightarrow> Status \<Rightarrow> bool" where
  "rule_fires n st =
     (bytes_Equal (ForkDigest st) (slice4 (cfg_ForkDigest n)) \<and> HeadSlot (status n) < HeadSlot st)"

definition update_actions :: "Node \<Rightarrow> Status \<Rightarrow> action list" where
  "update_actions n st = (if rule_fires n st then [StatusSet st] else [])"

definition cleanup_actions :: "env \<Rightarrow> peer_id \<Rightarrow> bool \<Rightarrow> action list" where
  "cleanup_actions e pid still_open =
     (if still_open
      then RpcGoodbye pid 3 #
           (case goodbye_resp e of
              Some err \<Rightarrow> [Log Debug ''Failed to send goodbye message'']
            | None \<Rightarrow> []) @ [Close pid]
      else [])"

definition first_addr :: "Node \<Rightarrow> peer_id \<Rightarrow> AddrInfo" where
  "first_addr n pid = \<lparr>ai_ID = pid, ai_Addrs = take 1 (peerstore n pid)\<rparr>"

section \<open>Concrete nodes, peers and answers\<close>

text \<open>
  The scenario of the specification: the local head slot is 50; peer P, known at address
  A, reports the local fork digest and head slot 100, and its metadata has sequence
  number 7 and subnet bitfield 0xFF. Peer Q has no known address.
\<close>

definition local50 :: Status where
  "local50 = \<lparr>ForkDigest = [1, 2, 3, 4], FinalizedRoot = [0], FinalizedEpoch = 1,
              HeadRoot = [0], HeadSlot = 50\<rparr>"

definition peer100 :: Status where
  "peer100 = \<lparr>ForkDigest = [1, 2, 3, 4], FinalizedRoot = [7], FinalizedEpoch = 3,
              HeadRoot = [8], HeadSlot = 100\<rparr>"

definition foreign1000 :: Status where
  "foreign1000 = \<lparr>ForkDigest = [9, 9, 9, 9], FinalizedRoot = [7], FinalizedEpoch = 30,
                  HeadRoot = [8], HeadSlot = 1000\<rparr>"

definition md7 :: MetaDataV1 where
  "md7 = \<lparr>SeqNumber = 7, Attnets = [255], Syncnets = []\<rparr>"

definition node0 :: Node where
  "node0 = \<lparr>cfg_ForkDigest = (1, 2, 3, 4), status = local50, metadataCache = Map.empty,
            backoffCache = Map.empty,
            peerstore = (\<lambda>p. if p = ''P'' then [''A'', ''B''] else []),
            network = (\<lambda>p. Connected), trace = []\<rparr>"

definition addrP :: AddrInfo where
  "addrP = \<lparr>ai_ID = ''P'', ai_Addrs = [''A'']\<rparr>"

definition env_ok :: env where
  "env_ok = \<lparr>status_resp = Inr peer100, ping_resp = None, metadata_resp = Inr md7,
             goodbye_resp = None, closed_during_grace = False,
             closed_before_cleanup = False, now = 1000\<rparr>"

definition timeout_err :: error where
  "timeout_err = Err ''context deadline exceeded''"

text \<open>
  Variations: a peer on another fork that reports head slot 1000, a peer that is not
  ahead, an RPC that times out, a Goodbye that fails, a peer that leaves during the grace
  period.
\<close>

definition env_foreign :: env where
  "env_foreign = env_ok\<lparr>status_resp := Inr foreign1000\<rparr>"

definition env_stale :: env where
  "env_stale = env_ok\<lparr>status_resp := Inr (peer100\<lparr>HeadSlot := 50\<rparr>)\<rparr>"

definition env_status_fail :: env where
  "env_status_fail = env_ok\<lparr>status_resp := Inl timeout_err\<rparr>"

definition env_ping_fail :: env where
  "env_ping_fail = env_ok\<lparr>ping_resp := Some timeout_err\<rparr>"

definition env_md_fail :: env where
  "env_md_fail = env_ok\<lparr>metadata_resp := Inl timeout_err\<rparr>"

definition env_goodbye_fail :: env where
  "env_goodbye_fail = env_md_fail\<lparr>goodbye_resp := Some timeout_err\<rparr>"

definition env_gone :: env where
  "env_gone = env_ok\<lparr>closed_during_grace := True\<rparr>"

definition env_left :: env where
  "env_left = env_ok\<lparr>closed_before_cleanup := True\<rparr>"

section \<open>Reading the consumer's trace; concrete messages\<close>

definition crun :: "Consumer \<Rightarrow> Consumer \<Rightarrow> cact list" where
  "crun c c' = drop (length (ctrace c)) (ctrace c')"

text \<open>The line printed when the write, or the acknowledgment, fails.\<close>

definition write_failure_line :: "cenv \<Rightarrow> cact list" where
  "write_failure_line ce =
     (case write_resp ce of
        Some err \<Rightarrow> [Printf ''Error writing to Parquet file'']
      | None \<Rightarrow> [])"

definition ack_failure_line :: "cenv \<Rightarrow> cact list" where
  "ack_failure_line ce =
     (case ack_resp ce of
        Some err \<Rightarrow> [Printf ''Error acknowledging message'']
      | None \<Rightarrow> [])"

text \<open>
  A peer-discovered event and a metadata event captured at time 1700000000, the messages
  that carry them, and a message whose payload does not parse.
\<close>

definition event_pd :: PeerDiscoveredEvent where
  "event_pd = \<lparr>pd_ENR = ''enr:-abc'', pd_ID = ''P'', pd_IP = ''10.0.0.1'', pd_Port = 9000,
               pd_CrawlerID = ''crawler-1'', pd_CrawlerLoc = ''eu'',
               pd_Timestamp = 1700000000\<rparr>"

definition event_mr :: MetadataReceivedEvent where
  "event_mr = \<lparr>mr_ID = ''P'', mr_Multiaddr = ''A'', mr_Epoch = 42, mr_MetaData = Some md7,
               mr_ClientVersion = ''client/v1'', mr_CrawlerID = ''crawler-1'',
               mr_CrawlerLoc = ''eu'', mr_Timestamp = 1700000000\<rparr>"

definition cons0 :: Consumer where
  "cons0 = \<lparr>peerDiscoveredWriter = [], metadataReceivedWriter = [], ctrace = []\<rparr>"

definition json_err :: error where
  "json_err = Err ''unexpected end of JSON input''"

definition cenv_ok :: cenv where
  "cenv_ok = \<lparr>unmarshalPeer = (\<lambda>d. if d = [1] then Inr event_pd else Inl json_err),
              unmarshalMeta = (\<lambda>d. if d = [2] then Inr event_mr else Inl json_err),
              write_resp = None, ack_resp = None\<rparr>"

definition cenv_write_fail :: cenv where
  "cenv_write_fail = cenv_ok\<lparr>write_resp := Some (Err ''disk full'')\<rparr>"

definition msg_pd :: Msg where
  "msg_pd = \<lparr>Subject = ''events.peer_discovered'', Data = [1]\<rparr>"

definition msg_mr :: Msg where
  "msg_mr = \<lparr>Subject = ''events.metadata_received'', Data = [2]\<rparr>"

definition msg_bad :: Msg where
  "msg_bad = \<lparr>Subject = ''events.metadata_received'', Data = [0]\<rparr>"

section \<open>Properties of validatePeer\<close>

lemmas scenario_defs = env_ok_def node0_def local50_def peer100_def md7_def addrP_def

lemmas flow_defs = act_def logmsg_def Status_rpc_def Ping_def MetaData_def Goodbye_def
  SetStatus_def sendMetadataEvent_def addToMetadataCache_def addToBackoffCache_def
  ClosePeer_def remote_close_def handshake_done_def

lemma validatePeer_status:
  "status (snd (validatePeer e pid ai n)) =
     (case status_resp e of
        Inl err \<Rightarrow> status n
      | Inr st \<Rightarrow> if rule_fires n st then st else status n)"
  by (simp add: validatePeer_def rule_fires_def flow_defs Let_def split: sum.splits option.splits prod.splits)

lemma validatePeer_head_mono:
  "HeadSlot (status n) \<le> HeadSlot (status (snd (validatePeer e pid ai n)))"
  by (auto simp: validatePeer_status rule_fires_def split: sum.splits)

lemma validateAll_head_mono:
  "HeadSlot (status n) \<le> HeadSlot (status (validateAll rs n))"
proof (induction rs arbitrary: n)
  case Nil
  show ?case by simp
next
  case (Cons r rs)
  obtain e pid ai where r: "r = (e, pid, ai)" by (cases r)
  have "HeadSlot (status n) \<le> HeadSlot (status (snd (validatePeer e pid ai n)))"
    by (rule validatePeer_head_mono)
  also have "\<dots> \<le> HeadSlot (status (validateAll rs (snd (validatePeer e pid ai n))))"
    by (rule Cons.IH)
  finally show ?case by (simp add: r)
qed

text \<open>
  Claim C1. In every Status exchange the head slot of the local StatusRecord does not
  decrease, in one run of validatePeer and along any sequence of runs. The local record
  changes only when the peer answered with a fork digest equal, byte for byte, to the
  configured one and a head slot strictly greater than the local one; a peer whose fork
  digest differs leaves the local record as it was, whatever head slot it reports. The
  runs are taken one after the other: the read of the local head slot and the update
  form one step.
\<close>

theorem head_slot_monotonic:
  "HeadSlot (status n) \<le> HeadSlot (status (snd (validatePeer e pid ai n)))
   \<and> HeadSlot (status n) \<le> HeadSlot (status (validateAll rs n))
   \<and> (status (snd (validatePeer e pid ai n)) \<noteq> status n \<longrightarrow>
        (\<exists>st. status_resp e = Inr st
              \<and> bytes_Equal (ForkDigest st) (slice4 (cfg_ForkDigest n))
              \<and> HeadSlot (status n) < HeadSlot st))
   \<and> (\<forall>st. status_resp e = Inr st
            \<and> \<not> bytes_Equal (ForkDigest st) (slice4 (cfg_ForkDigest n)) \<longrightarrow>
          status (snd (validatePeer e pid ai n)) = status n)"
proof -
  have a: "status (snd (validatePeer e pid ai n)) \<noteq> status n \<longrightarrow>
        (\<exists>st. status_resp e = Inr st
              \<and> bytes_Equal (ForkDigest st) (slice4 (cfg_ForkDigest n))
              \<and> HeadSlot (status n) < HeadSlot st)"
    by (auto simp: validatePeer_status rule_fires_def split: sum.splits if_splits)
  have b: "\<forall>st. status_resp e = Inr st
            \<and> \<not> bytes_Equal (ForkDigest st) (slice4 (cfg_ForkDigest n)) \<longrightarrow>
          status (snd (validatePeer e pid ai n)) = status n"
    by (auto simp: validatePeer_status rule_fires_def)
  show ?thesis
    using validatePeer_head_mono validateAll_head_mono a b by blast
qed

theorem head_slot_monotonic_witness:
  "status (snd (validatePeer env_ok ''P'' addrP node0)) \<noteq> status node0
   \<and> status_resp env_ok = Inr peer100
   \<and> HeadSlot (status node0) = 50
   \<and> HeadSlot (status (snd (validatePeer env_ok ''P'' addrP node0))) = 100
   \<and> status_resp env_foreign = Inr foreign1000
   \<and> HeadSlot foreign1000 = 1000
   \<and> \<not> bytes_Equal (ForkDigest foreign1000) (slice4 (cfg_ForkDigest node0))
   \<and> status (snd (validatePeer env_foreign ''P'' addrP node0)) = status node0
   \<and> HeadSlot (status (validateAll [(env_foreign, ''P'', addrP), (env_ok, ''P'', addrP), (env_foreign, ''P'', addrP)] node0)) = 100"
  using head_slot_monotonic [of node0 env_ok "''P''" addrP "[]"]
        head_slot_monotonic [of node0 env_foreign "''P''" addrP "[]"]
  by (simp add: validatePeer_def flow_defs bytes_Equal_def env_ok_def env_foreign_def node0_def
      local50_def peer100_def foreign1000_def md7_def addrP_def)

lemma run_actionsI: "trace n' = trace n @ xs \<Longrightarrow> run_actions n n' = xs"
  by (simp add: run_actions_def)

lemma validatePeer_result:
  "fst (validatePeer e pid ai n) =
     (case status_resp e of
        Inl err \<Rightarrow> Some (Wrap err ''Failed to get status from peer'')
      | Inr st \<Rightarrow>
          (case ping_resp e of
             Some err \<Rightarrow> Some (Wrap err ''Failed to ping peer'')
           | None \<Rightarrow>
               (case metadata_resp e of
                  Inl err \<Rightarrow> Some (Wrap err ''Failed to get metadata from peer'')
                | Inr md \<Rightarrow> None)))"
  by (simp add: validatePeer_def flow_defs Let_def split: sum.splits option.splits)

lemma validatePeer_trace:
  "trace (snd (validatePeer e pid ai n)) = trace n @
     (case status_resp e of
        Inl err \<Rightarrow> [RpcStatus pid]
      | Inr st \<Rightarrow>
          RpcStatus pid # update_actions n st @ RpcPing pid #
          (case ping_resp e of
             Some err \<Rightarrow> []
           | None \<Rightarrow>
               RpcMetaData pid #
               (case metadata_resp e of
                  Inl err \<Rightarrow> []
                | Inr md \<Rightarrow> [Emit pid ai md, CachePut pid md,
                              Log Info ''Performed successful handshake'', FileLog pid md])))"
  by (simp add: validatePeer_def flow_defs update_actions_def rule_fires_def Let_def
      split: sum.splits option.splits)

lemma validatePeer_metadataCache:
  "metadataCache (snd (validatePeer e pid ai n)) =
     (case (status_resp e, ping_resp e, metadata_resp e) of
        (Inr st, None, Inr md) \<Rightarrow> (metadataCache n)(pid \<mapsto> (md, now e))
      | _ \<Rightarrow> metadataCache n)"
  by (simp add: validatePeer_def flow_defs Let_def split: sum.splits option.splits)

lemma validatePeer_frame:
  "backoffCache (snd (validatePeer e pid ai n)) = backoffCache n"
  "peerstore (snd (validatePeer e pid ai n)) = peerstore n"
  "network (snd (validatePeer e pid ai n)) = network n"
  "cfg_ForkDigest (snd (validatePeer e pid ai n)) = cfg_ForkDigest n"
  by (simp_all add: validatePeer_def flow_defs Let_def split: sum.splits option.splits)

text \<open>
  Claim C10. When the compare-and-update rule fires (equal fork digest, strictly greater
  head slot) validatePeer hands the whole record the peer reported to SetStatus, once, and
  the local StatusRecord becomes that record in every field: finalized epoch and root,
  head root, head slot and fork digest. When the rule does not fire, SetStatus is not
  called and the local record is the one from before the run.
\<close>

lemma validatePeer_status_sets:
  "filter is_status_set (run_actions n (snd (validatePeer e pid ai n))) =
     (case status_resp e of Inl err \<Rightarrow> [] | Inr st \<Rightarrow> update_actions n st)"
  by (simp add: run_actionsI [OF validatePeer_trace] update_actions_def
      split: sum.splits option.splits)

theorem status_replaced_or_kept:
  "(status_resp e = Inr st \<and> bytes_Equal (ForkDigest st) (slice4 (cfg_ForkDigest n))
      \<and> HeadSlot (status n) < HeadSlot st \<longrightarrow>
      status (snd (validatePeer e pid ai n)) = st
      \<and> FinalizedEpoch (status (snd (validatePeer e pid ai n))) = FinalizedEpoch st
      \<and> FinalizedRoot (status (snd (validatePeer e pid ai n))) = FinalizedRoot st
      \<and> HeadRoot (status (snd (validatePeer e pid ai n))) = HeadRoot st
      \<and> HeadSlot (status (snd (validatePeer e pid ai n))) = HeadSlot st
      \<and> ForkDigest (status (snd (validatePeer e pid ai n))) = ForkDigest st
      \<and> filter is_status_set (run_actions n (snd (validatePeer e pid ai n))) = [StatusSet st])
   \<and> (\<not> (\<exists>st. status_resp e = Inr st \<and> bytes_Equal (ForkDigest st) (slice4 (cfg_ForkDigest n))
              \<and> HeadSlot (status n) < HeadSlot st) \<longrightarrow>
      status (snd (validatePeer e pid ai n)) = status n
      \<and> filter is_status_set (run_actions n (snd (validatePeer e pid ai n))) = [])"
  by (auto simp: validatePeer_status validatePeer_status_sets update_actions_def rule_fires_def
      split: sum.splits)

theorem status_replaced_or_kept_witness:
  "status_resp env_ok = Inr peer100
   \<and> bytes_Equal (ForkDigest peer100) (slice4 (cfg_ForkDigest node0))
   \<and> HeadSlot (status node0) < HeadSlot peer100
   \<and> status (snd (validatePeer env_ok ''P'' addrP node0)) = peer100
   \<and> FinalizedEpoch (status node0) = 1
   \<and> FinalizedEpoch (status (snd (validatePeer env_ok ''P'' addrP node0))) = 3
   \<and> FinalizedRoot (status (snd (validatePeer env_ok ''P'' addrP node0))) = [7]
   \<and> filter is_status_set (run_actions node0 (snd (validatePeer env_ok ''P'' addrP node0))) =
       [StatusSet peer100]
   \<and> \<not> (\<exists>st. status_resp env_stale = Inr st
             \<and> bytes_Equal (ForkDigest st) (slice4 (cfg_ForkDigest node0))
             \<and> HeadSlot (status node0) < HeadSlot st)
   \<and> status (snd (validatePeer env_stale ''P'' addrP node0)) = local50
   \<and> filter is_status_set (run_actions node0 (snd (validatePeer env_stale ''P'' addrP node0))) = []"
  using status_replaced_or_kept [of env_ok peer100 node0 "''P''" addrP]
        status_replaced_or_kept [of env_stale peer100 node0 "''P''" addrP]
  by (simp add: bytes_Equal_def env_ok_def env_stale_def node0_def
      local50_def peer100_def)

text \<open>
  Claim C6. validatePeer runs Status, then the compare-and-update of the local record,
  then Ping, then MetaData, then hands the event to the emitter and inserts into the
  metadata cache. The first RPC that fails ends the run: nothing after it is done, and
  the error returned is that RPC's error, wrapped with the message of its step.
\<close>

theorem validate_order_first_error:
  "(status_resp e = Inl err \<longrightarrow>
      fst (validatePeer e pid ai n) = Some (Wrap err ''Failed to get status from peer'')
      \<and> run_actions n (snd (validatePeer e pid ai n)) = [RpcStatus pid]
      \<and> status (snd (validatePeer e pid ai n)) = status n
      \<and> metadataCache (snd (validatePeer e pid ai n)) = metadataCache n)
   \<and> (status_resp e = Inr st \<and> ping_resp e = Some err \<longrightarrow>
      fst (validatePeer e pid ai n) = Some (Wrap err ''Failed to ping peer'')
      \<and> run_actions n (snd (validatePeer e pid ai n)) =
          RpcStatus pid # update_actions n st @ [RpcPing pid]
      \<and> metadataCache (snd (validatePeer e pid ai n)) = metadataCache n)
   \<and> (status_resp e = Inr st \<and> ping_resp e = None \<and> metadata_resp e = Inl err \<longrightarrow>
      fst (validatePeer e pid ai n) = Some (Wrap err ''Failed to get metadata from peer'')
      \<and> run_actions n (snd (validatePeer e pid ai n)) =
          RpcStatus pid # update_actions n st @ [RpcPing pid, RpcMetaData pid]
      \<and> metadataCache (snd (validatePeer e pid ai n)) = metadataCache n)
   \<and> (status_resp e = Inr st \<and> ping_resp e = None \<and> metadata_resp e = Inr md \<longrightarrow>
      fst (validatePeer e pid ai n) = None
      \<and> run_actions n (snd (validatePeer e pid ai n)) =
          RpcStatus pid # update_actions n st @
          [RpcPing pid, RpcMetaData pid, Emit pid ai md, CachePut pid md,
           Log Info ''Performed successful handshake'', FileLog pid md]
      \<and> metadataCache (snd (validatePeer e pid ai n)) = (metadataCache n)(pid \<mapsto> (md, now e)))"
  by (simp add: validatePeer_result validatePeer_status validatePeer_metadataCache
      run_actionsI [OF validatePeer_trace])

theorem validate_order_first_error_witness:
  "validatePeer env_status_fail ''P'' addrP node0 =
     (Some (Wrap timeout_err ''Failed to get status from peer''), node0\<lparr>trace := [RpcStatus ''P'']\<rparr>)
   \<and> fst (validatePeer env_ping_fail ''P'' addrP node0) = Some (Wrap timeout_err ''Failed to ping peer'')
   \<and> trace (snd (validatePeer env_ping_fail ''P'' addrP node0)) =
       [RpcStatus ''P'', StatusSet peer100, RpcPing ''P'']
   \<and> fst (validatePeer env_md_fail ''P'' addrP node0) =
       Some (Wrap timeout_err ''Failed to get metadata from peer'')
   \<and> trace (snd (validatePeer env_md_fail ''P'' addrP node0)) =
       [RpcStatus ''P'', StatusSet peer100, RpcPing ''P'', RpcMetaData ''P'']
   \<and> fst (validatePeer env_ok ''P'' addrP node0) = None
   \<and> trace (snd (validatePeer env_ok ''P'' addrP node0)) =
       [RpcStatus ''P'', StatusSet peer100, RpcPing ''P'', RpcMetaData ''P'',
        Emit ''P'' addrP md7, CachePut ''P'' md7,
        Log Info ''Performed successful handshake'', FileLog ''P'' md7]
   \<and> metadataCache (snd (validatePeer env_ok ''P'' addrP node0)) ''P'' = Some (md7, 1000)"
  using validate_order_first_error [where e = env_status_fail and err = timeout_err
          and st = peer100 and md = md7 and pid = "''P''" and ai = addrP and n = node0]
        validate_order_first_error [where e = env_ping_fail and err = timeout_err
          and st = peer100 and md = md7 and pid = "''P''" and ai = addrP and n = node0]
        validate_order_first_error [where e = env_md_fail and err = timeout_err
          and st = peer100 and md = md7 and pid = "''P''" and ai = addrP and n = node0]
        validate_order_first_error [where e = env_ok and err = timeout_err
          and st = peer100 and md = md7 and pid = "''P''" and ai = addrP and n = node0]
  by (simp add: validatePeer_def flow_defs bytes_Equal_def scenario_defs
      env_status_fail_def env_ping_fail_def env_md_fail_def timeout_err_def)

section \<open>Properties of the two flows\<close>

lemma cleanup_trace:
  "trace (cleanup e pid n) =
     trace n @ cleanup_actions e pid (network n pid = Connected \<and> \<not> closed_before_cleanup e)"
  by (simp add: cleanup_def cleanup_actions_def flow_defs Let_def split: option.splits)

lemma cleanup_network: "network (cleanup e pid n) pid = NotConnected"
  by (cases "network n pid")
     (simp_all add: cleanup_def flow_defs Let_def split: option.splits)

lemma cleanup_frame:
  "status (cleanup e pid n) = status n"
  "metadataCache (cleanup e pid n) = metadataCache n"
  "backoffCache (cleanup e pid n) = backoffCache n"
  "peerstore (cleanup e pid n) = peerstore n"
  "cfg_ForkDigest (cleanup e pid n) = cfg_ForkDigest n"
  by (simp_all add: cleanup_def flow_defs Let_def split: option.splits)

lemma outbound_unfold:
  "handleOutboundConnection e pid n =
     Returned (cleanup e pid
       (if peerstore n pid = [] then logmsg Error ''No addresses found for peer'' n
        else if fst (validatePeer e pid (first_addr n pid) n) = None
        then snd (validatePeer e pid (first_addr n pid) n)
        else addToBackoffCache e pid (first_addr n pid)
               (logmsg Warn ''Handshake failed''
                  (snd (validatePeer e pid (first_addr n pid) n)))))"
  by (simp add: handleOutboundConnection_def first_addr_def Let_def
      split: prod.splits option.splits)

lemma inbound_unfold:
  "handleInboundConnection e pid n =
     (if network n pid = Connected \<and> \<not> closed_during_grace e
      then (case metadata_resp e of
              Inl err \<Rightarrow>
                Returned (cleanup e pid
                  (logmsg Warn ''Failed requesting metadata''
                    (act (RpcMetaData pid)
                      (act (Sleep 5) (logmsg Info ''Handling new inbound connection'' n)))))
            | Inr md \<Rightarrow>
                if peerstore n pid = [] then ProcessFatal
                else Returned (cleanup e pid
                  (handshake_done pid md
                    (addToMetadataCache e pid md
                      (sendMetadataEvent pid (first_addr n pid) md
                        (act (RpcMetaData pid)
                          (act (Sleep 5)
                            (logmsg Info ''Handling new inbound connection'' n))))))))
      else Returned (cleanup e pid
             (logmsg Warn ''Connection was closed before handshake completed''
               (remote_close (closed_during_grace e) pid
                 (act (Sleep 5) (logmsg Info ''Handling new inbound connection'' n))))))"
  by (cases "network n pid")
     (simp_all add: handleInboundConnection_def first_addr_def Let_def MetaData_def
        remote_close_def act_def logmsg_def split: sum.splits)

lemma no_emit_in_update: "filter is_emit_or_put (update_actions n st) = []"
  by (simp add: update_actions_def)

lemma no_emit_in_cleanup: "filter is_emit_or_put (cleanup_actions e pid b) = []"
  by (simp add: cleanup_actions_def split: option.splits)

lemma no_cache_write_in_cleanup: "filter is_cache_write (cleanup_actions e pid b) = []"
  by (simp add: cleanup_actions_def split: option.splits)

lemma teardown_in_cleanup:
  "filter is_teardown (cleanup_actions e pid b) = (if b then [RpcGoodbye pid 3, Close pid] else [])"
  by (simp add: cleanup_actions_def split: option.splits)

lemma rpc_in_cleanup:
  "filter is_rpc (cleanup_actions e pid b) = (if b then [RpcGoodbye pid 3] else [])"
  by (simp add: cleanup_actions_def split: option.splits)

lemma no_handshake_rpc_in_cleanup: "filter is_handshake_rpc (cleanup_actions e pid b) = []"
  by (simp add: cleanup_actions_def split: option.splits)

lemma no_teardown_in_update: "filter is_teardown (update_actions n st) = []"
  by (simp add: update_actions_def)

text \<open>
  Claim C3 asks for the cache insertion before, or together with, the emission. In a
  successful run of validatePeer for peer P the event is emitted while no insertion has
  been made yet.
\<close>

theorem insertion_before_emission_counterexample:
  "fst (validatePeer env_ok ''P'' addrP node0) = None
   \<and> \<not> insert_before_emit False (run_actions node0 (snd (validatePeer env_ok ''P'' addrP node0)))"
  by (simp add: validatePeer_result run_actionsI [OF validatePeer_trace] update_actions_def
      rule_fires_def bytes_Equal_def scenario_defs)

lemma inbound_success:
  assumes "network n pid = Connected" "\<not> closed_during_grace e" "metadata_resp e = Inr md"
    "peerstore n pid \<noteq> []"
  shows "\<exists>n'. handleInboundConnection e pid n = Returned n'
        \<and> run_actions n n' =
            [Log Info ''Handling new inbound connection'', Sleep 5, RpcMetaData pid,
             Emit pid (first_addr n pid) md, CachePut pid md,
             Log Info ''Performed successful handshake'', FileLog pid md] @
            cleanup_actions e pid (\<not> closed_before_cleanup e)
        \<and> metadataCache n' = (metadataCache n)(pid \<mapsto> (md, now e))
        \<and> backoffCache n' = backoffCache n
        \<and> network n' pid = NotConnected"
  using assms
  by (simp add: inbound_unfold run_actions_def cleanup_trace cleanup_frame cleanup_network flow_defs)

text \<open>
  Claim C3, as amended. A successful run of validatePeer, and a successful inbound flow,
  emits exactly one MetadataReceivedEvent and makes exactly one metadata cache insertion,
  the emission first and the insertion right after it, so that a run that emits always
  inserts as well; the cache then holds the fetched metadata for the peer. A run of
  validatePeer that fails does neither.
\<close>

theorem one_emission_then_one_insertion:
  "(fst (validatePeer e pid ai n) = None \<longrightarrow>
      (\<exists>md. metadata_resp e = Inr md
         \<and> filter is_emit_or_put (run_actions n (snd (validatePeer e pid ai n))) =
             [Emit pid ai md, CachePut pid md]
         \<and> metadataCache (snd (validatePeer e pid ai n)) = (metadataCache n)(pid \<mapsto> (md, now e))))
   \<and> (fst (validatePeer e pid ai n) \<noteq> None \<longrightarrow>
        filter is_emit_or_put (run_actions n (snd (validatePeer e pid ai n))) = []
        \<and> metadataCache (snd (validatePeer e pid ai n)) = metadataCache n)
   \<and> (network n pid = Connected \<and> \<not> closed_during_grace e \<and> metadata_resp e = Inr md
        \<and> peerstore n pid \<noteq> [] \<longrightarrow>
        (\<exists>n'. handleInboundConnection e pid n = Returned n'
           \<and> filter is_emit_or_put (run_actions n n') =
               [Emit pid (first_addr n pid) md, CachePut pid md]
           \<and> metadataCache n' = (metadataCache n)(pid \<mapsto> (md, now e))))"
proof -
  have a: "fst (validatePeer e pid ai n) = None \<longrightarrow>
      (\<exists>md. metadata_resp e = Inr md
         \<and> filter is_emit_or_put (run_actions n (snd (validatePeer e pid ai n))) =
             [Emit pid ai md, CachePut pid md]
         \<and> metadataCache (snd (validatePeer e pid ai n)) = (metadataCache n)(pid \<mapsto> (md, now e)))"
    by (simp add: validatePeer_result validatePeer_metadataCache no_emit_in_update
        run_actionsI [OF validatePeer_trace] split: sum.splits option.splits)
  have b: "fst (validatePeer e pid ai n) \<noteq> None \<longrightarrow>
        filter is_emit_or_put (run_actions n (snd (validatePeer e pid ai n))) = []
        \<and> metadataCache (snd (validatePeer e pid ai n)) = metadataCache n"
    by (simp add: validatePeer_result validatePeer_metadataCache no_emit_in_update
        run_actionsI [OF validatePeer_trace] split: sum.splits option.splits)
  have c: "network n pid = Connected \<and> \<not> closed_during_grace e \<and> metadata_resp e = Inr md
        \<and> peerstore n pid \<noteq> [] \<longrightarrow>
        (\<exists>n'. handleInboundConnection e pid n = Returned n'
           \<and> filter is_emit_or_put (run_actions n n') =
               [Emit pid (first_addr n pid) md, CachePut pid md]
           \<and> metadataCache n' = (metadataCache n)(pid \<mapsto> (md, now e)))"
  proof
    assume h: "network n pid = Connected \<and> \<not> closed_during_grace e \<and> metadata_resp e = Inr md
        \<and> peerstore n pid \<noteq> []"
    then obtain n' where n': "handleInboundConnection e pid n = Returned n'"
      "run_actions n n' =
            [Log Info ''Handling new inbound connection'', Sleep 5, RpcMetaData pid,
             Emit pid (first_addr n pid) md, CachePut pid md,
             Log Info ''Performed successful handshake'', FileLog pid md] @
            cleanup_actions e pid (\<not> closed_before_cleanup e)"
      "metadataCache n' = (metadataCache n)(pid \<mapsto> (md, now e))"
      using inbound_success [of n pid e md] by blast
    show "\<exists>n'. handleInboundConnection e pid n = Returned n'
           \<and> filter is_emit_or_put (run_actions n n') =
               [Emit pid (first_addr n pid) md, CachePut pid md]
           \<and> metadataCache n' = (metadataCache n)(pid \<mapsto> (md, now e))"
      using n' by (simp add: no_emit_in_cleanup)
  qed
  show ?thesis using a b c by blast
qed

theorem one_emission_then_one_insertion_witness:
  "fst (validatePeer env_ok ''P'' addrP node0) = None
   \<and> filter is_emit_or_put (run_actions node0 (snd (validatePeer env_ok ''P'' addrP node0))) =
       [Emit ''P'' addrP md7, CachePut ''P'' md7]
   \<and> metadataCache (snd (validatePeer env_ok ''P'' addrP node0)) ''P'' = Some (md7, 1000)
   \<and> fst (validatePeer env_ping_fail ''P'' addrP node0) \<noteq> None
   \<and> filter is_emit_or_put (run_actions node0 (snd (validatePeer env_ping_fail ''P'' addrP node0))) = []
   \<and> metadataCache (snd (validatePeer env_ping_fail ''P'' addrP node0)) ''P'' = None
   \<and> network node0 ''P'' = Connected \<and> \<not> closed_during_grace env_ok
   \<and> metadata_resp env_ok = Inr md7 \<and> peerstore node0 ''P'' \<noteq> []
   \<and> (\<exists>n'. handleInboundConnection env_ok ''P'' node0 = Returned n'
         \<and> filter is_emit_or_put (run_actions node0 n') = [Emit ''P'' addrP md7, CachePut ''P'' md7]
         \<and> metadataCache n' ''P'' = Some (md7, 1000))"
proof -
  note ok = one_emission_then_one_insertion [where e = env_ok and pid = "''P''" and ai = addrP
      and n = node0 and md = md7]
  note bad = one_emission_then_one_insertion [where e = env_ping_fail and pid = "''P''"
      and ai = addrP and n = node0 and md = md7]
  have r1: "fst (validatePeer env_ok ''P'' addrP node0) = None"
    by (simp add: validatePeer_result scenario_defs)
  have r2: "fst (validatePeer env_ping_fail ''P'' addrP node0) \<noteq> None"
    by (simp add: validatePeer_result scenario_defs env_ping_fail_def timeout_err_def)
  have h: "network node0 ''P'' = Connected \<and> \<not> closed_during_grace env_ok
           \<and> metadata_resp env_ok = Inr md7 \<and> peerstore node0 ''P'' \<noteq> []"
    by (simp add: scenario_defs)
  have fa: "first_addr node0 ''P'' = addrP"
    by (simp add: first_addr_def scenario_defs)
  have m: "metadata_resp env_ok = Inr md7" "now env_ok = 1000" "metadataCache node0 ''P'' = None"
    by (simp_all add: scenario_defs)
  from ok r1 m have v1:
    "filter is_emit_or_put (run_actions node0 (snd (validatePeer env_ok ''P'' addrP node0))) =
       [Emit ''P'' addrP md7, CachePut ''P'' md7]
     \<and> metadataCache (snd (validatePeer env_ok ''P'' addrP node0)) ''P'' = Some (md7, 1000)"
    by auto
  from bad r2 m have v2:
    "filter is_emit_or_put (run_actions node0 (snd (validatePeer env_ping_fail ''P'' addrP node0))) = []
     \<and> metadataCache (snd (validatePeer env_ping_fail ''P'' addrP node0)) ''P'' = None"
    by simp
  from ok h obtain n' where n': "handleInboundConnection env_ok ''P'' node0 = Returned n'"
    "filter is_emit_or_put (run_actions node0 n') =
       [Emit ''P'' (first_addr node0 ''P'') md7, CachePut ''P'' md7]"
    "metadataCache n' = (metadataCache node0)(''P'' \<mapsto> (md7, now env_ok))"
    by blast
  have v3: "\<exists>n'. handleInboundConnection env_ok ''P'' node0 = Returned n'
         \<and> filter is_emit_or_put (run_actions node0 n') = [Emit ''P'' addrP md7, CachePut ''P'' md7]
         \<and> metadataCache n' ''P'' = Some (md7, 1000)"
    using n' fa m by simp
  show ?thesis using r1 r2 h v1 v2 v3 by blast
qed

lemma outbound_unaddressed:
  assumes "peerstore n pid = []"
  shows "\<exists>n'. handleOutboundConnection e pid n = Returned n'
        \<and> run_actions n n' =
            Log Error ''No addresses found for peer'' #
            cleanup_actions e pid (network n pid = Connected \<and> \<not> closed_before_cleanup e)
        \<and> backoffCache n' = backoffCache n
        \<and> metadataCache n' = metadataCache n
        \<and> status n' = status n
        \<and> network n' pid = NotConnected"
  using assms
  by (simp add: outbound_unfold run_actions_def cleanup_trace cleanup_frame cleanup_network flow_defs)

lemma outbound_validated:
  assumes "peerstore n pid \<noteq> []"
  shows "\<exists>n'. handleOutboundConnection e pid n = Returned n'
        \<and> run_actions n n' =
            run_actions n (snd (validatePeer e pid (first_addr n pid) n)) @
            (if fst (validatePeer e pid (first_addr n pid) n) = None then []
             else [Log Warn ''Handshake failed'', BackoffPut pid (first_addr n pid)]) @
            cleanup_actions e pid (network n pid = Connected \<and> \<not> closed_before_cleanup e)
        \<and> backoffCache n' =
            (if fst (validatePeer e pid (first_addr n pid) n) = None then backoffCache n
             else (backoffCache n)(pid \<mapsto> (first_addr n pid, now e)))
        \<and> metadataCache n' = metadataCache (snd (validatePeer e pid (first_addr n pid) n))
        \<and> status n' = status (snd (validatePeer e pid (first_addr n pid) n))
        \<and> network n' pid = NotConnected"
  using assms
  by (simp add: outbound_unfold run_actions_def cleanup_trace cleanup_frame cleanup_network
      validatePeer_frame validatePeer_trace flow_defs)

lemma inbound_closed_in_grace:
  assumes "\<not> (network n pid = Connected \<and> \<not> closed_during_grace e)"
  shows "\<exists>n'. handleInboundConnection e pid n = Returned n'
        \<and> run_actions n n' =
            [Log Info ''Handling new inbound connection'', Sleep 5,
             Log Warn ''Connection was closed before handshake completed'']
        \<and> backoffCache n' = backoffCache n
        \<and> metadataCache n' = metadataCache n
        \<and> status n' = status n
        \<and> network n' pid = NotConnected"
  using assms
  by (cases "network n pid")
     (auto simp add: inbound_unfold run_actions_def cleanup_trace cleanup_frame cleanup_network
        cleanup_actions_def flow_defs)

lemma inbound_metadata_failed:
  assumes "network n pid = Connected" "\<not> closed_during_grace e" "metadata_resp e = Inl err"
  shows "\<exists>n'. handleInboundConnection e pid n = Returned n'
        \<and> run_actions n n' =
            [Log Info ''Handling new inbound connection'', Sleep 5, RpcMetaData pid,
             Log Warn ''Failed requesting metadata''] @
            cleanup_actions e pid (\<not> closed_before_cleanup e)
        \<and> backoffCache n' = backoffCache n
        \<and> metadataCache n' = metadataCache n
        \<and> status n' = status n
        \<and> network n' pid = NotConnected"
  using assms
  by (simp add: inbound_unfold run_actions_def cleanup_trace cleanup_frame cleanup_network flow_defs)

lemma inbound_fatal_iff:
  "(handleInboundConnection e pid n = ProcessFatal) =
     (network n pid = Connected \<and> \<not> closed_during_grace e
      \<and> (\<exists>md. metadata_resp e = Inr md) \<and> peerstore n pid = [])"
  by (auto simp add: inbound_unfold split: sum.splits)

lemma no_teardown_in_validate:
  "filter is_teardown (run_actions n (snd (validatePeer e pid ai n))) = []"
  by (simp add: run_actionsI [OF validatePeer_trace] no_teardown_in_update
      split: sum.splits option.splits)

lemma validate_fails_iff:
  "(fst (validatePeer e pid ai n) \<noteq> None) =
     (isl (status_resp e) \<or> ping_resp e \<noteq> None \<or> isl (metadata_resp e))"
  by (auto simp add: validatePeer_result split: sum.splits option.splits)

text \<open>
  Claim C4 says that an outbound flow for a peer with no known address issues no RPC of
  any kind, Goodbye included. For peer Q, which has no known address and whose connection
  is still open, the flow logs the error and then the deferred cleanup sends a Goodbye and
  closes the connection.
\<close>

theorem outbound_no_address_goodbye_counterexample:
  "peerstore node0 ''Q'' = []
   \<and> handleOutboundConnection env_ok ''Q'' node0 =
       Returned (node0\<lparr>network := (network node0)(''Q'' := NotConnected),
                       trace := [Log Error ''No addresses found for peer'',
                                 RpcGoodbye ''Q'' 3, Close ''Q'']\<rparr>)"
  by (simp add: handleOutboundConnection_def cleanup_def flow_defs scenario_defs)

text \<open>
  Claim C4, as amended. An outbound flow for a peer with no known address issues no
  Status, Ping or MetaData RPC and writes neither cache; the backoff cache and the
  metadata cache are as before. The only RPC it can issue is the Goodbye of the shared
  cleanup, sent exactly when the connection is still open at the end of the flow; when
  the connection has already closed, no RPC is issued at all.
\<close>

theorem outbound_no_address_only_cleanup:
  "peerstore n pid = [] \<longrightarrow>
     (\<exists>n'. handleOutboundConnection e pid n = Returned n'
        \<and> filter is_handshake_rpc (run_actions n n') = []
        \<and> filter is_rpc (run_actions n n') =
            (if network n pid = Connected \<and> \<not> closed_before_cleanup e
             then [RpcGoodbye pid 3] else [])
        \<and> filter is_cache_write (run_actions n n') = []
        \<and> backoffCache n' = backoffCache n
        \<and> metadataCache n' = metadataCache n)"
proof
  assume "peerstore n pid = []"
  from outbound_unaddressed [OF this, of e] obtain n' where
    "handleOutboundConnection e pid n = Returned n'"
    "run_actions n n' = Log Error ''No addresses found for peer'' #
       cleanup_actions e pid (network n pid = Connected \<and> \<not> closed_before_cleanup e)"
    "backoffCache n' = backoffCache n" "metadataCache n' = metadataCache n"
    by blast
  then show "\<exists>n'. handleOutboundConnection e pid n = Returned n'
        \<and> filter is_handshake_rpc (run_actions n n') = []
        \<and> filter is_rpc (run_actions n n') =
            (if network n pid = Connected \<and> \<not> closed_before_cleanup e
             then [RpcGoodbye pid 3] else [])
        \<and> filter is_cache_write (run_actions n n') = []
        \<and> backoffCache n' = backoffCache n
        \<and> metadataCache n' = metadataCache n"
    by (simp add: rpc_in_cleanup no_handshake_rpc_in_cleanup no_cache_write_in_cleanup)
qed

theorem outbound_no_address_only_cleanup_witness:
  "peerstore node0 ''Q'' = []
   \<and> (\<exists>n'. handleOutboundConnection env_ok ''Q'' node0 = Returned n'
         \<and> filter is_handshake_rpc (run_actions node0 n') = []
         \<and> filter is_rpc (run_actions node0 n') = [RpcGoodbye ''Q'' 3]
         \<and> backoffCache n' ''Q'' = None \<and> metadataCache n' ''Q'' = None)
   \<and> (\<exists>n'. handleOutboundConnection env_left ''Q'' node0 = Returned n'
         \<and> filter is_rpc (run_actions node0 n') = []
         \<and> backoffCache n' ''Q'' = None \<and> metadataCache n' ''Q'' = None)"
proof -
  have h: "peerstore node0 ''Q'' = []" by (simp add: scenario_defs)
  have c: "network node0 ''Q'' = Connected" "\<not> closed_before_cleanup env_ok"
    "closed_before_cleanup env_left" "backoffCache node0 ''Q'' = None"
    "metadataCache node0 ''Q'' = None"
    by (simp_all add: scenario_defs env_left_def)
  from outbound_no_address_only_cleanup [of node0 "''Q''" env_ok] h c
  have a: "\<exists>n'. handleOutboundConnection env_ok ''Q'' node0 = Returned n'
         \<and> filter is_handshake_rpc (run_actions node0 n') = []
         \<and> filter is_rpc (run_actions node0 n') = [RpcGoodbye ''Q'' 3]
         \<and> backoffCache n' ''Q'' = None \<and> metadataCache n' ''Q'' = None"
    by auto
  from outbound_no_address_only_cleanup [of node0 "''Q''" env_left] h c
  have b: "\<exists>n'. handleOutboundConnection env_left ''Q'' node0 = Returned n'
         \<and> filter is_rpc (run_actions node0 n') = []
         \<and> backoffCache n' ''Q'' = None \<and> metadataCache n' ''Q'' = None"
    by auto
  show ?thesis using h a b by blast
qed

lemma outbound_closes:
  "\<exists>n'. handleOutboundConnection e pid n = Returned n'
       \<and> network n' pid = NotConnected
       \<and> filter is_teardown (run_actions n n') =
           (if network n pid = Connected \<and> \<not> closed_before_cleanup e
            then [RpcGoodbye pid 3, Close pid] else [])
       \<and> (\<exists>body. run_actions n n' =
             body @ cleanup_actions e pid (network n pid = Connected \<and> \<not> closed_before_cleanup e))"
proof (cases "peerstore n pid = []")
  case True
  from outbound_unaddressed [OF this, of e] obtain n' where
    n': "handleOutboundConnection e pid n = Returned n'"
    "run_actions n n' = [Log Error ''No addresses found for peer''] @
       cleanup_actions e pid (network n pid = Connected \<and> \<not> closed_before_cleanup e)"
    "network n' pid = NotConnected"
    by auto
  have "\<exists>body. run_actions n n' =
      body @ cleanup_actions e pid (network n pid = Connected \<and> \<not> closed_before_cleanup e)"
    using n'(2) by blast
  with n' show ?thesis by (simp add: teardown_in_cleanup no_teardown_in_validate)
next
  case False
  from outbound_validated [OF this, of e] obtain n' where
    n': "handleOutboundConnection e pid n = Returned n'"
    "run_actions n n' =
       (run_actions n (snd (validatePeer e pid (first_addr n pid) n)) @
        (if fst (validatePeer e pid (first_addr n pid) n) = None then []
         else [Log Warn ''Handshake failed'', BackoffPut pid (first_addr n pid)])) @
        cleanup_actions e pid (network n pid = Connected \<and> \<not> closed_before_cleanup e)"
    "network n' pid = NotConnected"
    by auto
  have "\<exists>body. run_actions n n' =
      body @ cleanup_actions e pid (network n pid = Connected \<and> \<not> closed_before_cleanup e)"
    using n'(2) by blast
  with n' show ?thesis by (simp add: teardown_in_cleanup no_teardown_in_validate)
qed

lemma inbound_closes:
  assumes "handleInboundConnection e pid n = Returned n'"
  shows "network n' pid = NotConnected
       \<and> filter is_teardown (run_actions n n') =
           (if network n pid = Connected \<and> \<not> closed_during_grace e \<and> \<not> closed_before_cleanup e
            then [RpcGoodbye pid 3, Close pid] else [])
       \<and> (\<exists>body. run_actions n n' =
             body @ cleanup_actions e pid
               (network n pid = Connected \<and> \<not> closed_during_grace e \<and> \<not> closed_before_cleanup e))"
proof (cases "network n pid = Connected \<and> \<not> closed_during_grace e")
  case False
  from inbound_closed_in_grace [OF this] assms have
    n': "run_actions n n' =
       [Log Info ''Handling new inbound connection'', Sleep 5,
        Log Warn ''Connection was closed before handshake completed''] @ []"
    "network n' pid = NotConnected"
    by auto
  show ?thesis using n' False by (auto simp add: cleanup_actions_def)
next
  case op: True
  show ?thesis
  proof (cases "metadata_resp e")
    case (Inl err)
    from inbound_metadata_failed [of n pid e err] op Inl assms have
      n': "run_actions n n' =
        [Log Info ''Handling new inbound connection'', Sleep 5, RpcMetaData pid,
         Log Warn ''Failed requesting metadata''] @
        cleanup_actions e pid (\<not> closed_before_cleanup e)"
      "network n' pid = NotConnected"
      by auto
    have "\<exists>body. run_actions n n' = body @ cleanup_actions e pid (\<not> closed_before_cleanup e)"
      using n'(1) by blast
    with n' op show ?thesis by (simp add: teardown_in_cleanup)
  next
    case (Inr md)
    have ne: "peerstore n pid \<noteq> []"
      using assms op Inr inbound_fatal_iff [of e pid n] by auto
    from inbound_success [of n pid e md] op Inr ne assms have
      n': "run_actions n n' =
        [Log Info ''Handling new inbound connection'', Sleep 5, RpcMetaData pid,
         Emit pid (first_addr n pid) md, CachePut pid md,
         Log Info ''Performed successful handshake'', FileLog pid md] @
        cleanup_actions e pid (\<not> closed_before_cleanup e)"
      "network n' pid = NotConnected"
      by auto
    have "\<exists>body. run_actions n n' = body @ cleanup_actions e pid (\<not> closed_before_cleanup e)"
      using n'(1) by blast
    with n' op show ?thesis by (simp add: teardown_in_cleanup)
  qed
qed

text \<open>
  Claim C5. Every outbound flow returns, and when an outbound or an inbound flow returns
  the cleanup has run last and the connection to the peer is closed. When the connection
  is still open at that point, a Goodbye with reason code 3 is sent and the connection is
  then force-closed, whatever the Goodbye answered; when the connection had closed on its
  own, neither step is taken. The same holds for the deferred function on its own.
\<close>

theorem cleanup_always_closes:
  "(\<exists>n'. handleOutboundConnection e pid n = Returned n'
       \<and> network n' pid = NotConnected
       \<and> filter is_teardown (run_actions n n') =
           (if network n pid = Connected \<and> \<not> closed_before_cleanup e
            then [RpcGoodbye pid 3, Close pid] else [])
       \<and> (\<exists>body. run_actions n n' =
             body @ cleanup_actions e pid (network n pid = Connected \<and> \<not> closed_before_cleanup e)))
   \<and> (\<forall>n'. handleInboundConnection e pid n = Returned n' \<longrightarrow>
         network n' pid = NotConnected
       \<and> filter is_teardown (run_actions n n') =
           (if network n pid = Connected \<and> \<not> closed_during_grace e \<and> \<not> closed_before_cleanup e
            then [RpcGoodbye pid 3, Close pid] else [])
       \<and> (\<exists>body. run_actions n n' =
             body @ cleanup_actions e pid
               (network n pid = Connected \<and> \<not> closed_during_grace e \<and> \<not> closed_before_cleanup e)))
   \<and> network (cleanup e pid n) pid = NotConnected
   \<and> run_actions n (cleanup e pid n) =
       cleanup_actions e pid (network n pid = Connected \<and> \<not> closed_before_cleanup e)"
  using outbound_closes [where e = e and pid = pid and n = n]
    inbound_closes [where e = e and pid = pid and n = n]
    cleanup_network [where e = e and pid = pid and n = n]
    run_actionsI [OF cleanup_trace, where e1 = e and pid1 = pid and n = n]
  by blast

theorem cleanup_always_closes_witness:
  "(\<exists>n'. handleInboundConnection env_goodbye_fail ''P'' node0 = Returned n'
       \<and> network n' ''P'' = NotConnected
       \<and> filter is_teardown (run_actions node0 n') = [RpcGoodbye ''P'' 3, Close ''P'']
       \<and> run_actions node0 n' =
           [Log Info ''Handling new inbound connection'', Sleep 5, RpcMetaData ''P'',
            Log Warn ''Failed requesting metadata'', RpcGoodbye ''P'' 3,
            Log Debug ''Failed to send goodbye message'', Close ''P''])
   \<and> (\<exists>n'. handleInboundConnection env_gone ''P'' node0 = Returned n'
       \<and> network n' ''P'' = NotConnected
       \<and> filter is_teardown (run_actions node0 n') = [])"
proof -
  have c: "network node0 ''P'' = Connected" "\<not> closed_during_grace env_goodbye_fail"
    "\<not> closed_before_cleanup env_goodbye_fail"
    "metadata_resp env_goodbye_fail = Inl timeout_err"
    "goodbye_resp env_goodbye_fail = Some timeout_err"
    "closed_during_grace env_gone"
    by (simp_all add: scenario_defs env_goodbye_fail_def env_md_fail_def env_gone_def
        timeout_err_def)
  from inbound_metadata_failed [of node0 "''P''" env_goodbye_fail timeout_err] c
  obtain n1 where n1: "handleInboundConnection env_goodbye_fail ''P'' node0 = Returned n1"
    "run_actions node0 n1 =
           [Log Info ''Handling new inbound connection'', Sleep 5, RpcMetaData ''P'',
            Log Warn ''Failed requesting metadata'', RpcGoodbye ''P'' 3,
            Log Debug ''Failed to send goodbye message'', Close ''P'']"
    by (auto simp add: cleanup_actions_def)
  from inbound_closed_in_grace [of node0 "''P''" env_gone] c
  obtain n2 where n2: "handleInboundConnection env_gone ''P'' node0 = Returned n2"
    by auto
  from cleanup_always_closes [where e = env_goodbye_fail and pid = "''P''" and n = node0] n1 c
  have a: "network n1 ''P'' = NotConnected
       \<and> filter is_teardown (run_actions node0 n1) = [RpcGoodbye ''P'' 3, Close ''P'']"
    by simp
  from cleanup_always_closes [where e = env_gone and pid = "''P''" and n = node0] n2 c
  have b: "network n2 ''P'' = NotConnected \<and> filter is_teardown (run_actions node0 n2) = []"
    by simp
  show ?thesis using n1 n2 a b by blast
qed

text \<open>
  Claim C2 says that no flow ever ends the process. The inbound flow for peer Q, whose
  connection is still open after the grace period, whose MetaData request succeeds and
  which has no known address, does not return: it ends in the process-fatal branch.
\<close>

theorem inbound_no_address_fatal_counterexample:
  "network node0 ''Q'' = Connected \<and> peerstore node0 ''Q'' = []
   \<and> metadata_resp env_ok = Inr md7
   \<and> handleInboundConnection env_ok ''Q'' node0 = ProcessFatal"
  by (simp add: handleInboundConnection_def flow_defs scenario_defs)

text \<open>
  Claim C2, as amended. Every outbound flow returns to its goroutine, whatever fails in
  it: with no known address it logs an error and runs the cleanup; when Status, Ping or
  MetaData fails it logs a warning, records the backoff entry and runs the cleanup. An
  inbound flow returns when the connection closed during the grace period (a warning) and
  when the MetaData request fails (a warning, then the cleanup). The inbound flow ends
  the process in exactly one case: the connection is still open after the grace period,
  MetaData succeeded, and the peer has no known address.
\<close>

theorem failures_stay_in_flow:
  "(\<exists>n'. handleOutboundConnection e pid n = Returned n')
   \<and> ((handleInboundConnection e pid n = ProcessFatal) =
        (network n pid = Connected \<and> \<not> closed_during_grace e
         \<and> (\<exists>md. metadata_resp e = Inr md) \<and> peerstore n pid = []))
   \<and> (peerstore n pid = [] \<longrightarrow>
        (\<exists>n'. handleOutboundConnection e pid n = Returned n'
           \<and> run_actions n n' =
               Log Error ''No addresses found for peer'' #
               cleanup_actions e pid (network n pid = Connected \<and> \<not> closed_before_cleanup e)))
   \<and> (peerstore n pid \<noteq> [] \<and> fst (validatePeer e pid (first_addr n pid) n) \<noteq> None \<longrightarrow>
        (\<exists>n'. handleOutboundConnection e pid n = Returned n'
           \<and> run_actions n n' =
               run_actions n (snd (validatePeer e pid (first_addr n pid) n)) @
               [Log Warn ''Handshake failed'', BackoffPut pid (first_addr n pid)] @
               cleanup_actions e pid (network n pid = Connected \<and> \<not> closed_before_cleanup e)))
   \<and> (\<not> (network n pid = Connected \<and> \<not> closed_during_grace e) \<longrightarrow>
        (\<exists>n'. handleInboundConnection e pid n = Returned n'
           \<and> run_actions n n' =
               [Log Info ''Handling new inbound connection'', Sleep 5,
                Log Warn ''Connection was closed before handshake completed'']))
   \<and> (network n pid = Connected \<and> \<not> closed_during_grace e \<and> metadata_resp e = Inl err \<longrightarrow>
        (\<exists>n'. handleInboundConnection e pid n = Returned n'
           \<and> run_actions n n' =
               [Log Info ''Handling new inbound connection'', Sleep 5, RpcMetaData pid,
                Log Warn ''Failed requesting metadata''] @
               cleanup_actions e pid (\<not> closed_before_cleanup e)))"
proof -
  have a: "\<exists>n'. handleOutboundConnection e pid n = Returned n'"
    by (simp add: outbound_unfold)
  have b: "peerstore n pid = [] \<longrightarrow>
        (\<exists>n'. handleOutboundConnection e pid n = Returned n'
           \<and> run_actions n n' =
               Log Error ''No addresses found for peer'' #
               cleanup_actions e pid (network n pid = Connected \<and> \<not> closed_before_cleanup e))"
    using outbound_unaddressed [of n pid e] by blast
  have c: "peerstore n pid \<noteq> [] \<and> fst (validatePeer e pid (first_addr n pid) n) \<noteq> None \<longrightarrow>
        (\<exists>n'. handleOutboundConnection e pid n = Returned n'
           \<and> run_actions n n' =
               run_actions n (snd (validatePeer e pid (first_addr n pid) n)) @
               [Log Warn ''Handshake failed'', BackoffPut pid (first_addr n pid)] @
               cleanup_actions e pid (network n pid = Connected \<and> \<not> closed_before_cleanup e))"
    using outbound_validated [of n pid e] by auto
  have d: "\<not> (network n pid = Connected \<and> \<not> closed_during_grace e) \<longrightarrow>
        (\<exists>n'. handleInboundConnection e pid n = Returned n'
           \<and> run_actions n n' =
               [Log Info ''Handling new inbound connection'', Sleep 5,
                Log Warn ''Connection was closed before handshake completed''])"
    using inbound_closed_in_grace [of n pid e] by blast
  have f: "network n pid = Connected \<and> \<not> closed_during_grace e \<and> metadata_resp e = Inl err \<longrightarrow>
        (\<exists>n'. handleInboundConnection e pid n = Returned n'
           \<and> run_actions n n' =
               [Log Info ''Handling new inbound connection'', Sleep 5, RpcMetaData pid,
                Log Warn ''Failed requesting metadata''] @
               cleanup_actions e pid (\<not> closed_before_cleanup e))"
    using inbound_metadata_failed [of n pid e err] by blast
  show ?thesis using a b c d f inbound_fatal_iff [of e pid n] by blast
qed

theorem failures_stay_in_flow_witness:
  "peerstore node0 ''Q'' = []
   \<and> (\<exists>n'. handleOutboundConnection env_ok ''Q'' node0 = Returned n'
         \<and> run_actions node0 n' =
             [Log Error ''No addresses found for peer'', RpcGoodbye ''Q'' 3, Close ''Q''])
   \<and> peerstore node0 ''P'' \<noteq> []
   \<and> fst (validatePeer env_ping_fail ''P'' (first_addr node0 ''P'') node0) \<noteq> None
   \<and> (\<exists>n'. handleOutboundConnection env_ping_fail ''P'' node0 = Returned n'
         \<and> run_actions node0 n' =
             [RpcStatus ''P'', StatusSet peer100, RpcPing ''P'', Log Warn ''Handshake failed'',
              BackoffPut ''P'' addrP, RpcGoodbye ''P'' 3, Close ''P''])
   \<and> closed_during_grace env_gone
   \<and> (\<exists>n'. handleInboundConnection env_gone ''P'' node0 = Returned n'
         \<and> run_actions node0 n' =
             [Log Info ''Handling new inbound connection'', Sleep 5,
              Log Warn ''Connection was closed before handshake completed''])
   \<and> network node0 ''P'' = Connected \<and> \<not> closed_during_grace env_md_fail
   \<and> metadata_resp env_md_fail = Inl timeout_err
   \<and> (\<exists>n'. handleInboundConnection env_md_fail ''P'' node0 = Returned n'
         \<and> run_actions node0 n' =
             [Log Info ''Handling new inbound connection'', Sleep 5, RpcMetaData ''P'',
              Log Warn ''Failed requesting metadata'', RpcGoodbye ''P'' 3, Close ''P''])
   \<and> handleInboundConnection env_md_fail ''Q'' node0 \<noteq> ProcessFatal"
proof -
  have h: "peerstore node0 ''Q'' = []" "peerstore node0 ''P'' \<noteq> []"
    "closed_during_grace env_gone" "network node0 ''P'' = Connected"
    "network node0 ''Q'' = Connected"
    "\<not> closed_during_grace env_md_fail" "metadata_resp env_md_fail = Inl timeout_err"
    "\<not> closed_before_cleanup env_ok" "\<not> closed_before_cleanup env_md_fail"
    "\<not> closed_before_cleanup env_ping_fail"
    "goodbye_resp env_ok = None" "goodbye_resp env_md_fail = None"
    "goodbye_resp env_ping_fail = None"
    by (simp_all add: scenario_defs env_gone_def env_md_fail_def env_ping_fail_def
        timeout_err_def)
  have fa: "first_addr node0 ''P'' = addrP"
    by (simp add: first_addr_def scenario_defs)
  have v: "fst (validatePeer env_ping_fail ''P'' addrP node0) \<noteq> None"
    "run_actions node0 (snd (validatePeer env_ping_fail ''P'' addrP node0)) =
       [RpcStatus ''P'', StatusSet peer100, RpcPing ''P'']"
    by (simp_all add: validatePeer_result run_actionsI [OF validatePeer_trace] update_actions_def
        rule_fires_def bytes_Equal_def scenario_defs env_ping_fail_def timeout_err_def)
  note t1 = failures_stay_in_flow [where e = env_ok and pid = "''Q''" and n = node0
      and err = timeout_err]
  note t2 = failures_stay_in_flow [where e = env_ping_fail and pid = "''P''" and n = node0
      and err = timeout_err]
  note t3 = failures_stay_in_flow [where e = env_gone and pid = "''P''" and n = node0
      and err = timeout_err]
  note t4 = failures_stay_in_flow [where e = env_md_fail and pid = "''P''" and n = node0
      and err = timeout_err]
  note t5 = failures_stay_in_flow [where e = env_md_fail and pid = "''Q''" and n = node0
      and err = timeout_err]
  have a: "\<exists>n'. handleOutboundConnection env_ok ''Q'' node0 = Returned n'
         \<and> run_actions node0 n' =
             [Log Error ''No addresses found for peer'', RpcGoodbye ''Q'' 3, Close ''Q'']"
    using t1 h by (simp add: cleanup_actions_def)
  have b: "\<exists>n'. handleOutboundConnection env_ping_fail ''P'' node0 = Returned n'
         \<and> run_actions node0 n' =
             [RpcStatus ''P'', StatusSet peer100, RpcPing ''P'', Log Warn ''Handshake failed'',
              BackoffPut ''P'' addrP, RpcGoodbye ''P'' 3, Close ''P'']"
    using t2 h v fa by (simp add: cleanup_actions_def)
  have c: "\<exists>n'. handleInboundConnection env_gone ''P'' node0 = Returned n'
         \<and> run_actions node0 n' =
             [Log Info ''Handling new inbound connection'', Sleep 5,
              Log Warn ''Connection was closed before handshake completed'']"
    using t3 h by simp
  have d: "\<exists>n'. handleInboundConnection env_md_fail ''P'' node0 = Returned n'
         \<and> run_actions node0 n' =
             [Log Info ''Handling new inbound connection'', Sleep 5, RpcMetaData ''P'',
              Log Warn ''Failed requesting metadata'', RpcGoodbye ''P'' 3, Close ''P'']"
    using t4 h by (simp add: cleanup_actions_def)
  have f: "handleInboundConnection env_md_fail ''Q'' node0 \<noteq> ProcessFatal"
    using t5 h by simp
  show ?thesis using h v fa a b c d f by simp
qed

text \<open>
  Claim C7. When the peer has a known address and Status, Ping or MetaData fails, the
  outbound flow returns with the peer's address info (the first known address) in the
  backoff cache, stamped with the time of the failure; the metadata cache is the one from
  before the run, no event is emitted, and the backoff insertion is the only cache write
  of the run.
\<close>

theorem outbound_failure_backs_off:
  "peerstore n pid \<noteq> []
   \<and> (isl (status_resp e) \<or> ping_resp e \<noteq> None \<or> isl (metadata_resp e)) \<longrightarrow>
     (\<exists>n'. handleOutboundConnection e pid n = Returned n'
        \<and> backoffCache n' = (backoffCache n)(pid \<mapsto> (first_addr n pid, now e))
        \<and> metadataCache n' = metadataCache n
        \<and> filter is_emit_or_put (run_actions n n') = []
        \<and> filter is_cache_write (run_actions n n') = [BackoffPut pid (first_addr n pid)])"
proof
  assume h: "peerstore n pid \<noteq> []
     \<and> (isl (status_resp e) \<or> ping_resp e \<noteq> None \<or> isl (metadata_resp e))"
  then have f: "fst (validatePeer e pid (first_addr n pid) n) \<noteq> None"
    using validate_fails_iff [of e pid "first_addr n pid" n] by blast
  have m: "metadataCache (snd (validatePeer e pid (first_addr n pid) n)) = metadataCache n"
    using h by (auto simp add: validatePeer_metadataCache split: sum.splits option.splits)
  have w: "filter is_cache_write (run_actions n (snd (validatePeer e pid (first_addr n pid) n))) = []"
    "filter is_emit_or_put (run_actions n (snd (validatePeer e pid (first_addr n pid) n))) = []"
    using h by (auto simp add: run_actionsI [OF validatePeer_trace] update_actions_def
        split: sum.splits option.splits)
  from outbound_validated [of n pid e] h f obtain n' where
    n': "handleOutboundConnection e pid n = Returned n'"
    "run_actions n n' =
       run_actions n (snd (validatePeer e pid (first_addr n pid) n)) @
       [Log Warn ''Handshake failed'', BackoffPut pid (first_addr n pid)] @
       cleanup_actions e pid (network n pid = Connected \<and> \<not> closed_before_cleanup e)"
    "backoffCache n' = (backoffCache n)(pid \<mapsto> (first_addr n pid, now e))"
    "metadataCache n' = metadataCache (snd (validatePeer e pid (first_addr n pid) n))"
    by auto
  show "\<exists>n'. handleOutboundConnection e pid n = Returned n'
        \<and> backoffCache n' = (backoffCache n)(pid \<mapsto> (first_addr n pid, now e))
        \<and> metadataCache n' = metadataCache n
        \<and> filter is_emit_or_put (run_actions n n') = []
        \<and> filter is_cache_write (run_actions n n') = [BackoffPut pid (first_addr n pid)]"
    using n' m w by (simp add: no_emit_in_cleanup no_cache_write_in_cleanup)
qed

theorem outbound_failure_backs_off_witness:
  "peerstore node0 ''P'' \<noteq> []
   \<and> isl (status_resp env_status_fail) \<and> ping_resp env_ping_fail \<noteq> None
   \<and> isl (metadata_resp env_md_fail)
   \<and> (\<exists>n'. handleOutboundConnection env_status_fail ''P'' node0 = Returned n'
         \<and> backoffCache n' ''P'' = Some (addrP, 1000) \<and> metadataCache n' ''P'' = None)
   \<and> (\<exists>n'. handleOutboundConnection env_ping_fail ''P'' node0 = Returned n'
         \<and> backoffCache n' ''P'' = Some (addrP, 1000) \<and> metadataCache n' ''P'' = None)
   \<and> (\<exists>n'. handleOutboundConnection env_md_fail ''P'' node0 = Returned n'
         \<and> backoffCache n' ''P'' = Some (addrP, 1000) \<and> metadataCache n' ''P'' = None)"
proof -
  have h: "peerstore node0 ''P'' \<noteq> []" "isl (status_resp env_status_fail)"
    "ping_resp env_ping_fail \<noteq> None" "isl (metadata_resp env_md_fail)"
    "now env_status_fail = 1000" "now env_ping_fail = 1000" "now env_md_fail = 1000"
    "metadataCache node0 ''P'' = None"
    by (simp_all add: scenario_defs env_status_fail_def env_ping_fail_def env_md_fail_def
        timeout_err_def)
  have fa: "first_addr node0 ''P'' = addrP"
    by (simp add: first_addr_def scenario_defs)
  have a: "\<exists>n'. handleOutboundConnection env_status_fail ''P'' node0 = Returned n'
         \<and> backoffCache n' ''P'' = Some (addrP, 1000) \<and> metadataCache n' ''P'' = None"
    using outbound_failure_backs_off [of node0 "''P''" env_status_fail] h fa by auto
  have b: "\<exists>n'. handleOutboundConnection env_ping_fail ''P'' node0 = Returned n'
         \<and> backoffCache n' ''P'' = Some (addrP, 1000) \<and> metadataCache n' ''P'' = None"
    using outbound_failure_backs_off [of node0 "''P''" env_ping_fail] h fa by auto
  have c: "\<exists>n'. handleOutboundConnection env_md_fail ''P'' node0 = Returned n'
         \<and> backoffCache n' ''P'' = Some (addrP, 1000) \<and> metadataCache n' ''P'' = None"
    using outbound_failure_backs_off [of node0 "''P''" env_md_fail] h fa by auto
  show ?thesis using h a b c by simp
qed

section \<open>Properties of the consumer\<close>

lemmas store_defs = cdo_def storePeerDiscoveredEvent_def storeMetadataReceivedEvent_def

lemma handle_peer_malformed:
  assumes "Subject msg = ''events.peer_discovered''" "unmarshalPeer ce (Data msg) = Inl err"
  shows "crun c (handleMessage ce msg c) =
           [Printf ''Error unmarshaling PeerDiscoveredEvent'', MsgTerm]
         \<and> peerDiscoveredWriter (handleMessage ce msg c) = peerDiscoveredWriter c
         \<and> metadataReceivedWriter (handleMessage ce msg c) = metadataReceivedWriter c"
  using assms by (simp add: handleMessage_def store_defs ack_def crun_def write_failure_line_def
      ack_failure_line_def)

lemma handle_meta_malformed:
  assumes "Subject msg = ''events.metadata_received''" "unmarshalMeta ce (Data msg) = Inl err"
  shows "crun c (handleMessage ce msg c) =
           [Printf ''Error unmarshaling MetadataReceivedEvent'', MsgTerm]
         \<and> peerDiscoveredWriter (handleMessage ce msg c) = peerDiscoveredWriter c
         \<and> metadataReceivedWriter (handleMessage ce msg c) = metadataReceivedWriter c"
  using assms by (simp add: handleMessage_def store_defs ack_def crun_def write_failure_line_def
      ack_failure_line_def)

lemma handle_peer_parsed:
  assumes "Subject msg = ''events.peer_discovered''" "unmarshalPeer ce (Data msg) = Inr ev"
  shows "crun c (handleMessage ce msg c) =
           [LogEvent ''peer_discovered'', WritePeer (mkParquetPeerDiscoveredEvent ev)] @
           write_failure_line ce @ [MsgAck] @ ack_failure_line ce"
  using assms by (simp add: handleMessage_def store_defs ack_def crun_def write_failure_line_def
      ack_failure_line_def Let_def split: option.splits)

lemma handle_meta_parsed:
  assumes "Subject msg = ''events.metadata_received''" "unmarshalMeta ce (Data msg) = Inr ev"
  shows "crun c (handleMessage ce msg c) =
           [LogEvent ''metadata_received'', WriteMeta (mkParquetMetadataReceivedEvent ev)] @
           write_failure_line ce @ [MsgAck] @ ack_failure_line ce"
  using assms by (simp add: handleMessage_def store_defs ack_def crun_def write_failure_line_def
      ack_failure_line_def Let_def split: option.splits)

text \<open>
  A message on any other subject is not deserialized: it is reported and acknowledged,
  and nothing is written.
\<close>

lemma handle_unknown_subject:
  assumes "Subject msg \<noteq> ''events.peer_discovered''"
    "Subject msg \<noteq> ''events.metadata_received''"
  shows "crun c (handleMessage ce msg c) =
           [Printf ''Unknown event type'', MsgAck] @ ack_failure_line ce
         \<and> peerDiscoveredWriter (handleMessage ce msg c) = peerDiscoveredWriter c
         \<and> metadataReceivedWriter (handleMessage ce msg c) = metadataReceivedWriter c"
  using assms by (simp add: handleMessage_def store_defs ack_def crun_def write_failure_line_def
      ack_failure_line_def Let_def split: option.splits)

text \<open>
  Claim C8. For a message on either of the two event subjects: when the payload does not
  deserialize, the consumer prints the error and terminates the message, and does nothing
  else: no acknowledgment, no write attempt, both files unchanged. When the payload
  deserializes, the consumer logs the event, attempts the write of the row and only then
  acknowledges the message, whether the write succeeded or failed (a failed write only
  adds a printed line before the acknowledgment).
\<close>

theorem message_term_or_ack_after_write:
  "(Subject msg = ''events.peer_discovered'' \<and> unmarshalPeer ce (Data msg) = Inl err \<longrightarrow>
      crun c (handleMessage ce msg c) =
        [Printf ''Error unmarshaling PeerDiscoveredEvent'', MsgTerm]
      \<and> peerDiscoveredWriter (handleMessage ce msg c) = peerDiscoveredWriter c
      \<and> metadataReceivedWriter (handleMessage ce msg c) = metadataReceivedWriter c)
   \<and> (Subject msg = ''events.metadata_received'' \<and> unmarshalMeta ce (Data msg) = Inl err \<longrightarrow>
      crun c (handleMessage ce msg c) =
        [Printf ''Error unmarshaling MetadataReceivedEvent'', MsgTerm]
      \<and> peerDiscoveredWriter (handleMessage ce msg c) = peerDiscoveredWriter c
      \<and> metadataReceivedWriter (handleMessage ce msg c) = metadataReceivedWriter c)
   \<and> (Subject msg = ''events.peer_discovered'' \<and> unmarshalPeer ce (Data msg) = Inr pev \<longrightarrow>
      crun c (handleMessage ce msg c) =
        [LogEvent ''peer_discovered'', WritePeer (mkParquetPeerDiscoveredEvent pev)] @
        write_failure_line ce @ [MsgAck] @ ack_failure_line ce)
   \<and> (Subject msg = ''events.metadata_received'' \<and> unmarshalMeta ce (Data msg) = Inr mev \<longrightarrow>
      crun c (handleMessage ce msg c) =
        [LogEvent ''metadata_received'', WriteMeta (mkParquetMetadataReceivedEvent mev)] @
        write_failure_line ce @ [MsgAck] @ ack_failure_line ce)"
  using handle_peer_malformed [of msg ce err c] handle_meta_malformed [of msg ce err c]
    handle_peer_parsed [of msg ce pev c] handle_meta_parsed [of msg ce mev c]
  by blast

theorem message_term_or_ack_after_write_witness:
  "Subject msg_bad = ''events.metadata_received'' \<and> unmarshalMeta cenv_ok (Data msg_bad) = Inl json_err
   \<and> ctrace (handleMessage cenv_ok msg_bad cons0) =
       [Printf ''Error unmarshaling MetadataReceivedEvent'', MsgTerm]
   \<and> metadataReceivedWriter (handleMessage cenv_ok msg_bad cons0) = []
   \<and> Subject msg_pd = ''events.peer_discovered'' \<and> unmarshalPeer cenv_ok (Data msg_pd) = Inr event_pd
   \<and> ctrace (handleMessage cenv_ok msg_pd cons0) =
       [LogEvent ''peer_discovered'', WritePeer (mkParquetPeerDiscoveredEvent event_pd), MsgAck]
   \<and> ctrace (handleMessage cenv_write_fail msg_pd cons0) =
       [LogEvent ''peer_discovered'', WritePeer (mkParquetPeerDiscoveredEvent event_pd),
        Printf ''Error writing to Parquet file'', MsgAck]
   \<and> peerDiscoveredWriter (handleMessage cenv_write_fail msg_pd cons0) = []
   \<and> unmarshalMeta cenv_ok (Data msg_mr) = Inr event_mr
   \<and> ctrace (handleMessage cenv_ok msg_mr cons0) =
       [LogEvent ''metadata_received'', WriteMeta (mkParquetMetadataReceivedEvent event_mr), MsgAck]"
  using message_term_or_ack_after_write [where msg = msg_bad and ce = cenv_ok and c = cons0
          and err = json_err and pev = event_pd and mev = event_mr]
        message_term_or_ack_after_write [where msg = msg_pd and ce = cenv_ok and c = cons0
          and err = json_err and pev = event_pd and mev = event_mr]
        message_term_or_ack_after_write [where msg = msg_pd and ce = cenv_write_fail and c = cons0
          and err = json_err and pev = event_pd and mev = event_mr]
        message_term_or_ack_after_write [where msg = msg_mr and ce = cenv_ok and c = cons0
          and err = json_err and pev = event_pd and mev = event_mr]
  by (simp add: handleMessage_def store_defs ack_def crun_def write_failure_line_def ack_failure_line_def
      cons0_def json_err_def cenv_ok_def
      cenv_write_fail_def msg_pd_def msg_mr_def msg_bad_def)

text \<open>The fields the two store functions do copy, and the columns they leave at zero.\<close>

lemma store_mirrors_other_fields:
  "ppd_ENR (mkParquetPeerDiscoveredEvent pev) = pd_ENR pev
   \<and> ppd_ID (mkParquetPeerDiscoveredEvent pev) = pd_ID pev
   \<and> ppd_IP (mkParquetPeerDiscoveredEvent pev) = pd_IP pev
   \<and> ppd_Port (mkParquetPeerDiscoveredEvent pev) = pd_Port pev
   \<and> ppd_CrawlerID (mkParquetPeerDiscoveredEvent pev) = pd_CrawlerID pev
   \<and> ppd_CrawlerLoc (mkParquetPeerDiscoveredEvent pev) = pd_CrawlerLoc pev
   \<and> pmr_ID (mkParquetMetadataReceivedEvent mev) = mr_ID mev
   \<and> pmr_Multiaddr (mkParquetMetadataReceivedEvent mev) = mr_Multiaddr mev
   \<and> pmr_Epoch (mkParquetMetadataReceivedEvent mev) = mr_Epoch mev
   \<and> pmr_ClientVersion (mkParquetMetadataReceivedEvent mev) = mr_ClientVersion mev
   \<and> pmr_CrawlerID (mkParquetMetadataReceivedEvent mev) = mr_CrawlerID mev
   \<and> pmr_CrawlerLoc (mkParquetMetadataReceivedEvent mev) = mr_CrawlerLoc mev"
  by (simp add: mkParquetPeerDiscoveredEvent_def mkParquetMetadataReceivedEvent_def)

lemma store_row_timestamp_zero:
  "ppd_Timestamp (mkParquetPeerDiscoveredEvent pev) = 0
   \<and> pmr_Timestamp (mkParquetMetadataReceivedEvent mev) = 0
   \<and> pmr_MetaData (mkParquetMetadataReceivedEvent mev) = None"
  by (simp add: mkParquetPeerDiscoveredEvent_def mkParquetMetadataReceivedEvent_def)

text \<open>
  Claim C9 says that the row written carries the event's timestamp and, for a metadata
  event, its metadata payload. Evaluated on an event captured at time 1700000000, and on
  a metadata event with the same time and a metadata payload, the stored rows have
  timestamp 0 and no metadata: the two store functions never set these columns.
\<close>

theorem stored_row_loses_timestamp_and_metadata:
  "pd_Timestamp event_pd = 1700000000
   \<and> map ppd_Timestamp (peerDiscoveredWriter (storePeerDiscoveredEvent cenv_ok event_pd cons0)) = [0]
   \<and> mr_Timestamp event_mr = 1700000000
   \<and> mr_MetaData event_mr = Some md7
   \<and> map pmr_Timestamp
        (metadataReceivedWriter (storeMetadataReceivedEvent cenv_ok event_mr cons0)) = [0]
   \<and> map pmr_MetaData
        (metadataReceivedWriter (storeMetadataReceivedEvent cenv_ok event_mr cons0)) = [None]"
  by (simp add: store_defs mkParquetPeerDiscoveredEvent_def
      mkParquetMetadataReceivedEvent_def event_pd_def event_mr_def cons0_def cenv_ok_def
      Let_def)

end
